theory Spec2Isabelle
  imports Main "HOL-Library.Sublist"
begin

section \<open>Strings and numbers as the source uses them\<close>

text \<open>
  The stale-reference resolver of \<^verbatim>\<open>src/tools/snapshot.ts\<close> works on strings with two
  regular expressions, \<^verbatim>\<open>parseInt\<close> and template literals. The regular expressions are
  written out as the recursive functions they compute; \<^verbatim>\<open>\d\<close> is an ASCII digit.

  JavaScript numbers are doubles. \<^verbatim>\<open>parseInt\<close>, \<^verbatim>\<open>+ 1\<close> and the conversion of a number to
  a string are read on the naturals, which is what JavaScript computes as long as the
  numbers stay within \<^verbatim>\<open>Number.MAX_SAFE_INTEGER\<close>; the theorems about references assume
  the generation they parse below that bound.
\<close>

definition MAX_SAFE_INTEGER :: nat where
  "MAX_SAFE_INTEGER = 2 ^ 53 - 1"

definition is_digit :: "char \<Rightarrow> bool" where
  "is_digit c \<longleftrightarrow> c \<in> set ''0123456789''"

definition digit_char :: "nat \<Rightarrow> char" where
  "digit_char d = ''0123456789'' ! d"

definition digit_value :: "char \<Rightarrow> nat" where
  "digit_value c = of_char c - 48"

text \<open>The template literal \<^verbatim>\<open>`${n}`\<close> of a non-negative integer: its decimal digits.\<close>

function String_nat :: "nat \<Rightarrow> string" where
  "String_nat n =
     (if n < 10 then [digit_char n] else String_nat (n div 10) @ [digit_char (n mod 10)])"
  by pat_completeness auto
termination
  by (relation "measure id") auto

declare String_nat.simps [simp del]

text \<open>
  \<^verbatim>\<open>parseInt\<close> of a string of decimal digits. The source applies it to what \<^verbatim>\<open>(\d+)\<close>
  captured or to \<^verbatim>\<open>'0'\<close>, so no other string reaches it.
\<close>

definition parseInt :: "string \<Rightarrow> nat" where
  "parseInt ds = foldl (\<lambda>n c. 10 * n + digit_value c) 0 ds"

definition startsWith :: "string \<Rightarrow> string \<Rightarrow> bool" where
  "startsWith s p \<longleftrightarrow> take (length p) s = p"

text \<open>
  \<^verbatim>\<open>String.prototype.match\<close> with a regular expression that has no flags returns the
  leftmost match. Both expressions of the source match at least one character, so the search
  tries every position that has a character, from the left; \<open>here\<close> is the expression
  matched at the start of a string.
\<close>

fun leftmost :: "(string \<Rightarrow> 'a option) \<Rightarrow> string \<Rightarrow> 'a option" where
  "leftmost here [] = None"
| "leftmost here (c # cs) =
     (case here (c # cs) of
        Some found \<Rightarrow> Some found
      | None \<Rightarrow> leftmost here cs)"

text \<open>
  \<^verbatim>\<open>ref.match(/s(\d+)e/)?.[1]\<close>: the digits of the leftmost \<^verbatim>\<open>s\<close>, digits, \<^verbatim>\<open>e\<close> in
  the string, if there is one. After an \<^verbatim>\<open>s\<close> the digits are taken greedily; a shorter run
  of them is followed by a digit, never by \<^verbatim>\<open>e\<close>, so backtracking finds nothing more.
\<close>

definition generation_here :: "string \<Rightarrow> string option" where
  "generation_here t =
     (case t of
        [] \<Rightarrow> None
      | c # cs \<Rightarrow>
          if c = CHR ''s'' \<and> takeWhile is_digit cs \<noteq> [] \<and>
             startsWith (dropWhile is_digit cs) ''e''
          then Some (takeWhile is_digit cs)
          else None)"

definition match_generation :: "string \<Rightarrow> string option" where
  "match_generation ref = leftmost generation_here ref"

text \<open>
  \<^verbatim>\<open>text.match(new RegExp(`ref=(${expectedPrefix}\\d+)`))?.[1]\<close>: the leftmost place
  where the text reads \<^verbatim>\<open>ref=\<close>, the prefix and at least one digit; the group is the prefix
  with all the digits that follow it. The prefix is \<^verbatim>\<open>s\<close>, digits and \<^verbatim>\<open>e\<close>, so it
  holds no character that is special in a regular expression.
\<close>

definition ref_here :: "string \<Rightarrow> string \<Rightarrow> string option" where
  "ref_here expectedPrefix t =
     (if startsWith t (''ref='' @ expectedPrefix) \<and>
         takeWhile is_digit (drop (length (''ref='' @ expectedPrefix)) t) \<noteq> []
      then Some (expectedPrefix @
                 takeWhile is_digit (drop (length (''ref='' @ expectedPrefix)) t))
      else None)"

definition match_ref :: "string \<Rightarrow> string \<Rightarrow> string option" where
  "match_ref expectedPrefix text = leftmost (ref_here expectedPrefix) text"

text \<open>
  \<^verbatim>\<open>parseInt(ref.match(/s(\d+)e/)?.[1] || '0')\<close>, which the source writes out twice.
\<close>

definition ref_generation :: "string \<Rightarrow> nat" where
  "ref_generation ref =
     parseInt (case match_generation ref of None \<Rightarrow> ''0'' | Some ds \<Rightarrow> ds)"

text \<open>The reference string \<^verbatim>\<open>s<generation>e<localId>\<close>.\<close>

definition reference :: "nat \<Rightarrow> nat \<Rightarrow> string" where
  "reference g i = ''s'' @ String_nat g @ ''e'' @ String_nat i"

section \<open>Thrown values\<close>

text \<open>
  A rejected promise or a thrown exception is a value \<open>Inl e\<close>. The kinds are those of
  the error taxonomy; what \<^verbatim>\<open>String(error)\<close> prints for them is decided outside the sources
  (zod, Playwright, \<^verbatim>\<open>context.ts\<close>) and is left symbolic.
\<close>

datatype zod_issue = NotAnObject | InvalidField string | Refinement string

datatype precondition = NoCurrentTab | NoSnapshot

datatype thrown =
    InvalidArgumentsError "zod_issue list"
  | StaleOrUnknownReferenceError string
  | PreconditionError precondition
  | ActionExecutionError string

section \<open>Page, Snapshot and Tab\<close>

text \<open>
  Modelled from the spec: the live page a Tab owns, as far as captures see it
  (\<^verbatim>\<open>playwright.Page\<close>; the driver is not among the sources). It has the interactive nodes
  now on the page, in tree order, and the generation of the last capture taken on it. The
  counter is kept with the page: \<^verbatim>\<open>handleStaleRef\<close> captures through a Tab object of its own
  on the page of the current Tab, and that capture continues the numbering (scenario 5 of
  the spec: generation 3 becomes 4).
\<close>

record page =
  page_generation :: nat
  page_nodes :: "string list"

text \<open>
  Modelled from the spec: the class \<^verbatim>\<open>PageSnapshot\<close> of \<^verbatim>\<open>context.ts\<close>, which is not among
  the sources. A Snapshot has a generation and the interactive nodes in order, each with
  its reference string.
\<close>

record snapshot =
  snapshot_generation :: nat
  snapshot_nodes :: "(string \<times> string) list"

text \<open>
  Modelled from the spec: the class \<^verbatim>\<open>Tab\<close> of \<^verbatim>\<open>context.ts\<close>, which is not among the
  sources. A Tab owns the live page and the most recent Snapshot, absent before the first
  capture.
\<close>

record tab =
  tab_page :: page
  tab_snapshot :: "snapshot option"

text \<open>
  Modelled from the spec: what a capture produces (\<^verbatim>\<open>PageSnapshot.create\<close> of
  \<^verbatim>\<open>context.ts\<close>, not among the sources). The generation of the new Snapshot is the previous
  generation plus one; each interactive node gets the reference
  \<^verbatim>\<open>s<generation>e<index>\<close>, the index counting up within the capture in tree order.
\<close>

definition capture :: "page \<Rightarrow> snapshot" where
  "capture p =
     \<lparr>snapshot_generation = page_generation p + 1,
      snapshot_nodes =
        map (\<lambda>(i, node). (reference (page_generation p + 1) i, node))
          (zip [1 ..< Suc (length (page_nodes p))] (page_nodes p))\<rparr>"

text \<open>
  Modelled from the spec: \<^verbatim>\<open>Tab.captureSnapshot\<close> of \<^verbatim>\<open>context.ts\<close>, which is not among the
  sources. The new Snapshot replaces the one the Tab held, and the page has been captured
  once more.
\<close>

definition Tab_captureSnapshot :: "tab \<Rightarrow> tab" where
  "Tab_captureSnapshot t =
     \<lparr>tab_page = (tab_page t)\<lparr>page_generation := page_generation (tab_page t) + 1\<rparr>,
      tab_snapshot = Some (capture (tab_page t))\<rparr>"

text \<open>
  Modelled from the spec: \<^verbatim>\<open>Tab.snapshotOrDie\<close> of \<^verbatim>\<open>context.ts\<close>, which is not among the
  sources. A call that needs a snapshot fails fast when the Tab has none.
\<close>

definition Tab_snapshotOrDie :: "tab \<Rightarrow> thrown + snapshot" where
  "Tab_snapshotOrDie t =
     (case tab_snapshot t of None \<Rightarrow> Inl (PreconditionError NoSnapshot) | Some s \<Rightarrow> Inr s)"

text \<open>
  Modelled from the spec: \<^verbatim>\<open>PageSnapshot.text\<close> of \<^verbatim>\<open>context.ts\<close>, which is not among the
  sources. The serialized text has a line for each node and embeds the node's reference
  inline, as \<^verbatim>\<open>[ref=...]\<close>, the form the regular expression of \<^verbatim>\<open>handleStaleRef\<close> looks
  for.
\<close>

definition snapshot_text :: "snapshot \<Rightarrow> string" where
  "snapshot_text s =
     concat (map (\<lambda>(r, node). ''- '' @ node @ '' [ref='' @ r @ '']'' @ [CHR 0x0A])
       (snapshot_nodes s))"

section \<open>The stale-reference resolver\<close>

text \<open>
  \<^verbatim>\<open>handleStaleRef(page, ref)\<close> of \<^verbatim>\<open>src/tools/snapshot.ts\<close>. It builds a Tab of its own
  on the page, captures, and returns a reference; the page it leaves behind is returned with
  it.
\<close>

definition handleStaleRef :: "page \<Rightarrow> string \<Rightarrow> (thrown + string) \<times> page" where
  "handleStaleRef page ref =
     (let tab = Tab_captureSnapshot \<lparr>tab_page = page, tab_snapshot = None\<rparr> in
      case Tab_snapshotOrDie tab of
        Inl err \<Rightarrow> (Inl err, tab_page tab)
      | Inr snapshot \<Rightarrow>
          (let expectedPrefix = ''s'' @ String_nat (ref_generation ref + 1) @ ''e'' in
           if startsWith ref (''s'' @ String_nat (ref_generation ref) @ ''e'')
           then (case match_ref expectedPrefix (snapshot_text snapshot) of
                   None \<Rightarrow> (Inr ref, tab_page tab)
                 | Some newRef \<Rightarrow> (Inr newRef, tab_page tab))
           else (Inr ref, tab_page tab)))"

section \<open>Tools, their parameters and their results\<close>

text \<open>
  The arguments of a call are JSON; \<^verbatim>\<open>undefined\<close> stands for a missing property and for
  missing arguments.
\<close>

datatype json =
    JUndefined
  | JNull
  | JBool bool
  | JNumber int
  | JString string
  | JArray "json list"
  | JObject "(string \<times> json) list"

definition property :: "(string \<times> json) list \<Rightarrow> string \<Rightarrow> json" where
  "property obj k = (case map_of obj k of None \<Rightarrow> JUndefined | Some v \<Rightarrow> v)"

text \<open>
  The zod schemas of \<^verbatim>\<open>src/tools/snapshot.ts\<close>. \<^verbatim>\<open>z.object\<close> wants an object and ignores
  the properties it does not name; \<^verbatim>\<open>z.string()\<close> wants a string; an optional property may
  be missing. \<^verbatim>\<open>parse\<close> throws a ZodError listing the issues, each an issue about one
  property; the refinement of the screenshot schema is checked once the properties are right.
\<close>

fun is_string :: "json \<Rightarrow> bool" where
  "is_string (JString s) = True"
| "is_string v = False"

fun the_string :: "json \<Rightarrow> string" where
  "the_string (JString s) = s"
| "the_string v = []"

fun optional_string :: "json \<Rightarrow> string option" where
  "optional_string (JString s) = Some s"
| "optional_string v = None"

fun optional_boolean :: "json \<Rightarrow> bool option" where
  "optional_boolean (JBool b) = Some b"
| "optional_boolean v = None"

definition z_string :: "(string \<times> json) list \<Rightarrow> string \<Rightarrow> zod_issue list" where
  "z_string obj k = (if is_string (property obj k) then [] else [InvalidField k])"

definition z_string_optional :: "(string \<times> json) list \<Rightarrow> string \<Rightarrow> zod_issue list" where
  "z_string_optional obj k =
     (case property obj k of JUndefined \<Rightarrow> [] | JString s \<Rightarrow> [] | _ \<Rightarrow> [InvalidField k])"

definition z_boolean_optional :: "(string \<times> json) list \<Rightarrow> string \<Rightarrow> zod_issue list" where
  "z_boolean_optional obj k =
     (case property obj k of JUndefined \<Rightarrow> [] | JBool b \<Rightarrow> [] | _ \<Rightarrow> [InvalidField k])"

definition z_array_string :: "(string \<times> json) list \<Rightarrow> string \<Rightarrow> zod_issue list" where
  "z_array_string obj k =
     (case property obj k of
        JArray vs \<Rightarrow> if list_all is_string vs then [] else [InvalidField k]
      | _ \<Rightarrow> [InvalidField k])"

fun the_strings :: "json \<Rightarrow> string list" where
  "the_strings (JArray vs) = map the_string vs"
| "the_strings v = []"

text \<open>
  The schema \<^verbatim>\<open>browser_snapshot\<close> declares is \<^verbatim>\<open>z.object({})\<close>: an object, with no property it
  names. The source only publishes it as the input schema of the tool; the handler of the
  tool does not take the arguments and never parses them.
\<close>

definition snapshotSchema_parse :: "json \<Rightarrow> thrown + unit" where
  "snapshotSchema_parse params =
     (case params of
        JObject obj \<Rightarrow> Inr ()
      | _ \<Rightarrow> Inl (InvalidArgumentsError [NotAnObject]))"

record element_params =
  v_element :: string
  v_ref :: string

definition elementSchema_parse :: "json \<Rightarrow> thrown + element_params" where
  "elementSchema_parse params =
     (case params of
        JObject obj \<Rightarrow>
          (let issues = z_string obj ''element'' @ z_string obj ''ref'' in
           if issues = []
           then Inr \<lparr>v_element = the_string (property obj ''element''),
                     v_ref = the_string (property obj ''ref'')\<rparr>
           else Inl (InvalidArgumentsError issues))
      | _ \<Rightarrow> Inl (InvalidArgumentsError [NotAnObject]))"

record drag_params =
  v_startElement :: string
  v_startRef :: string
  v_endElement :: string
  v_endRef :: string

definition dragSchema_parse :: "json \<Rightarrow> thrown + drag_params" where
  "dragSchema_parse params =
     (case params of
        JObject obj \<Rightarrow>
          (let issues = z_string obj ''startElement'' @ z_string obj ''startRef'' @
                 z_string obj ''endElement'' @ z_string obj ''endRef'' in
           if issues = []
           then Inr \<lparr>v_startElement = the_string (property obj ''startElement''),
                     v_startRef = the_string (property obj ''startRef''),
                     v_endElement = the_string (property obj ''endElement''),
                     v_endRef = the_string (property obj ''endRef'')\<rparr>
           else Inl (InvalidArgumentsError issues))
      | _ \<Rightarrow> Inl (InvalidArgumentsError [NotAnObject]))"

record type_params = element_params +
  v_text :: string
  v_submit :: "bool option"
  v_slowly :: "bool option"

definition typeSchema_parse :: "json \<Rightarrow> thrown + type_params" where
  "typeSchema_parse params =
     (case params of
        JObject obj \<Rightarrow>
          (let issues = z_string obj ''element'' @ z_string obj ''ref'' @
                 z_string obj ''text'' @ z_boolean_optional obj ''submit'' @
                 z_boolean_optional obj ''slowly'' in
           if issues = []
           then Inr \<lparr>v_element = the_string (property obj ''element''),
                     v_ref = the_string (property obj ''ref''),
                     v_text = the_string (property obj ''text''),
                     v_submit = optional_boolean (property obj ''submit''),
                     v_slowly = optional_boolean (property obj ''slowly'')\<rparr>
           else Inl (InvalidArgumentsError issues))
      | _ \<Rightarrow> Inl (InvalidArgumentsError [NotAnObject]))"

record selectOption_params = element_params +
  v_values :: "string list"

definition selectOptionSchema_parse :: "json \<Rightarrow> thrown + selectOption_params" where
  "selectOptionSchema_parse params =
     (case params of
        JObject obj \<Rightarrow>
          (let issues = z_string obj ''element'' @ z_string obj ''ref'' @
                 z_array_string obj ''values'' in
           if issues = []
           then Inr \<lparr>v_element = the_string (property obj ''element''),
                     v_ref = the_string (property obj ''ref''),
                     v_values = the_strings (property obj ''values'')\<rparr>
           else Inl (InvalidArgumentsError issues))
      | _ \<Rightarrow> Inl (InvalidArgumentsError [NotAnObject]))"

record selectRadio_params = element_params +
  v_value :: string

definition selectRadioSchema_parse :: "json \<Rightarrow> thrown + selectRadio_params" where
  "selectRadioSchema_parse params =
     (case params of
        JObject obj \<Rightarrow>
          (let issues = z_string obj ''element'' @ z_string obj ''ref'' @
                 z_string obj ''value'' in
           if issues = []
           then Inr \<lparr>v_element = the_string (property obj ''element''),
                     v_ref = the_string (property obj ''ref''),
                     v_value = the_string (property obj ''value'')\<rparr>
           else Inl (InvalidArgumentsError issues))
      | _ \<Rightarrow> Inl (InvalidArgumentsError [NotAnObject]))"

text \<open>
  JavaScript's truthiness of an optional string and of an optional boolean: \<^verbatim>\<open>undefined\<close>,
  the empty string and \<^verbatim>\<open>false\<close> count as false.
\<close>

fun truthy_string :: "string option \<Rightarrow> bool" where
  "truthy_string None = False"
| "truthy_string (Some s) = (s \<noteq> [])"

fun truthy_boolean :: "bool option \<Rightarrow> bool" where
  "truthy_boolean None = False"
| "truthy_boolean (Some b) = b"

record screenshot_params =
  s_raw :: "bool option"
  s_element :: "string option"
  s_ref :: "string option"

definition screenshotSchema_parse :: "json \<Rightarrow> thrown + screenshot_params" where
  "screenshotSchema_parse params =
     (case params of
        JObject obj \<Rightarrow>
          (let issues = z_boolean_optional obj ''raw'' @ z_string_optional obj ''element'' @
                 z_string_optional obj ''ref'';
               data = \<lparr>s_raw = optional_boolean (property obj ''raw''),
                       s_element = optional_string (property obj ''element''),
                       s_ref = optional_string (property obj ''ref'')\<rparr> in
           if issues \<noteq> [] then Inl (InvalidArgumentsError issues)
           else if truthy_string (s_element data) = truthy_string (s_ref data) then Inr data
           else Inl (InvalidArgumentsError
                  [Refinement ''Both element and ref must be provided or neither.'']))
      | _ \<Rightarrow> Inl (InvalidArgumentsError [NotAnObject]))"

section \<open>The collaborators of a handler\<close>

text \<open>
  A locatable target: the reference and the node it is bound to.
\<close>

datatype locator = Locator string string

text \<open>
  Modelled from the spec: \<^verbatim>\<open>PageSnapshot.refLocator\<close> of \<^verbatim>\<open>context.ts\<close>, which is not among
  the sources. It returns the target bound to the reference, and fails with a
  stale-or-unknown-reference error if no node of the snapshot carries that exact reference.
\<close>

definition refLocator :: "snapshot \<Rightarrow> string \<Rightarrow> thrown + locator" where
  "refLocator s ref =
     (case map_of (snapshot_nodes s) ref of
        None \<Rightarrow> Inl (StaleOrUnknownReferenceError ref)
      | Some node \<Rightarrow> Inr (Locator ref node))"

text \<open>
  The deferred operation of a Pending Action is a closure over locators and parameters. It is
  kept as data, one constructor per closure of \<^verbatim>\<open>src/tools/snapshot.ts\<close>, and run by the
  driver (\<open>perform\<close> below). The steps of \<^verbatim>\<open>browser_type\<close> run in order.
\<close>

datatype step =
    PressSequentially locator string
  | Fill locator string
  | Press locator string

datatype action =
    Click locator
  | DragTo locator locator
  | Hover locator
  | Steps "step list"
  | SelectOption locator "string list"
  | Check locator
  | TakeScreenshot "locator option" json string

text \<open>
  The text of a response is a string the sources build, or \<^verbatim>\<open>String(error)\<close> of a thrown
  value.
\<close>

datatype message = Text string | StringOf thrown

datatype content = TextContent message | ImageContent string string

record response =
  content :: "content list"
  isError :: bool

text \<open>
  What a handler calls that is not among the sources: the browser driver
  (\<^verbatim>\<open>generateLocator\<close>, opening a page, running a deferred operation), the helpers of
  \<^verbatim>\<open>javascript.ts\<close> and \<^verbatim>\<open>utils.ts\<close>, and the clock and file system of the host. They are
  parameters of the handlers.
\<close>

record env =
  generateLocator :: "page \<Rightarrow> locator \<Rightarrow> thrown + string"
  quote :: "string \<Rightarrow> string"
  formatObject :: "json \<Rightarrow> string"
  sanitizeForFilePath :: "string \<Rightarrow> string"
  path_join :: "string \<Rightarrow> string \<Rightarrow> string"
  tmpdir :: string
  toISOString :: string
  newPage :: "thrown + page"
  perform :: "action \<Rightarrow> page \<Rightarrow> (thrown + content list) \<times> page"

text \<open>
  Modelled from the spec: a modal state (\<^verbatim>\<open>ModalState\<close> of \<^verbatim>\<open>tools/tool.ts\<close>, which is not
  among the sources): a type tag and a human-readable description. The type of the tag is a
  type parameter.
\<close>

record 't modal_state =
  state_type :: 't
  description :: string

text \<open>
  Modelled from the spec: the session \<^verbatim>\<open>Context\<close> of \<^verbatim>\<open>context.ts\<close>, which is not among the
  sources. It owns the active modal states (\<^verbatim>\<open>context.modalStates()\<close>) and the current Tab,
  absent until a page is first needed.
\<close>

record 't Context =
  modalStates :: "'t modal_state list"
  currentTab :: "tab option"

text \<open>
  Modelled from the spec: \<^verbatim>\<open>Context.currentTabOrDie\<close> of \<^verbatim>\<open>context.ts\<close>, which is not among
  the sources. A call that needs a Tab fails fast when there is none.
\<close>

definition currentTabOrDie :: "'t Context \<Rightarrow> thrown + tab" where
  "currentTabOrDie context =
     (case currentTab context of
        None \<Rightarrow> Inl (PreconditionError NoCurrentTab)
      | Some tab \<Rightarrow> Inr tab)"

text \<open>
  Modelled from the spec: \<^verbatim>\<open>Context.ensureTab\<close> of \<^verbatim>\<open>context.ts\<close>, which is not among the
  sources. A Tab is created when a page is first needed; opening the page is the driver's
  work and may fail.
\<close>

definition ensureTab :: "env \<Rightarrow> 't Context \<Rightarrow> (thrown + tab) \<times> 't Context" where
  "ensureTab env context =
     (case currentTab context of
        Some tab \<Rightarrow> (Inr tab, context)
      | None \<Rightarrow>
          (case newPage env of
             Inl err \<Rightarrow> (Inl err, context)
           | Inr page \<Rightarrow>
               (Inr \<lparr>tab_page = page, tab_snapshot = None\<rparr>,
                context\<lparr>currentTab := Some \<lparr>tab_page = page, tab_snapshot = None\<rparr>\<rparr>)))"

text \<open>
  The value a handler returns (\<^verbatim>\<open>ToolResult\<close> of \<^verbatim>\<open>tools/tool.ts\<close>, which is not among the
  sources), with the properties the handlers of \<^verbatim>\<open>src/tools/snapshot.ts\<close> give it.
\<close>

record tool_result =
  code :: "string list"
  action :: "action option"
  captureSnapshot :: bool
  waitForNetwork :: bool

text \<open>
  A tool (\<^verbatim>\<open>Tool\<close> of \<^verbatim>\<open>tools/tool.ts\<close>, which is not among the sources), with the
  properties the sources read and write. \<^verbatim>\<open>clearsModalState\<close> is an optional property
  holding the type tag of a modal state. The dispatcher tests it for truthiness; a declared
  tag names a kind of modal state (\<^verbatim>\<open>"dialog"\<close> in the spec's scenarios) and is a true
  value, so the test is the test that the property is declared.
\<close>

record 't tool =
  capability :: string
  schema_name :: string
  clearsModalState :: "'t option"
  handle :: "env \<Rightarrow> 't Context \<Rightarrow> json \<Rightarrow> (thrown + tool_result) \<times> 't Context"

text \<open>Sequencing: a thrown value ends what follows it.\<close>

fun bind_result :: "thrown + 'a \<Rightarrow> ('a \<Rightarrow> thrown + 'b) \<Rightarrow> thrown + 'b" where
  "bind_result (Inl thrown) rest = Inl thrown"
| "bind_result (Inr returned) rest = rest returned"

text \<open>\<^verbatim>\<open>Array.prototype.join\<close> on strings.\<close>

fun join :: "string \<Rightarrow> string list \<Rightarrow> string" where
  "join sep [] = []"
| "join sep [x] = x"
| "join sep (x # y # ys) = x @ sep @ join sep (y # ys)"

section \<open>The handlers of \<^verbatim>\<open>src/tools/snapshot.ts\<close>\<close>

text \<open>
  A handler takes the session context and the arguments of the call, and returns a Pending
  Action or throws; the context it leaves behind is returned with it. Only
  \<^verbatim>\<open>browser_snapshot\<close> (which may open a page) and \<^verbatim>\<open>browser_click\<close> (which captures
  through \<^verbatim>\<open>handleStaleRef\<close>) change it.
\<close>

definition snapshot_handle ::
  "env \<Rightarrow> 't Context \<Rightarrow> json \<Rightarrow> (thrown + tool_result) \<times> 't Context" where
  "snapshot_handle env context params =
     (case ensureTab env context of
        (Inl err, context') \<Rightarrow> (Inl err, context')
      | (Inr tab, context') \<Rightarrow>
          (Inr \<lparr>code = [''// <internal code to capture accessibility snapshot>''],
                action = None,
                captureSnapshot = True,
                waitForNetwork = False\<rparr>,
           context'))"

definition click_handle ::
  "env \<Rightarrow> 't Context \<Rightarrow> json \<Rightarrow> (thrown + tool_result) \<times> 't Context" where
  "click_handle env context params =
     (case elementSchema_parse params of
        Inl err \<Rightarrow> (Inl err, context)
      | Inr validatedParams \<Rightarrow>
          (case currentTabOrDie context of
             Inl err \<Rightarrow> (Inl err, context)
           | Inr tab \<Rightarrow>
               (case handleStaleRef (tab_page tab) (v_ref validatedParams) of
                  (Inl err, page') \<Rightarrow>
                    (Inl err, context\<lparr>currentTab := Some (tab\<lparr>tab_page := page'\<rparr>)\<rparr>)
                | (Inr ref, page') \<Rightarrow>
                    (bind_result (Tab_snapshotOrDie tab) (\<lambda>snapshot.
                     bind_result (refLocator snapshot ref) (\<lambda>locator.
                     bind_result (generateLocator env page' locator) (\<lambda>generated.
                     Inr \<lparr>code =
                            [''// Click '' @ v_element validatedParams,
                             ''await page.'' @ generated @ ''.click();''],
                          action = Some (Click locator),
                          captureSnapshot = True,
                          waitForNetwork = True\<rparr>))),
                     context\<lparr>currentTab := Some (tab\<lparr>tab_page := page'\<rparr>)\<rparr>))))"

definition drag_handle ::
  "env \<Rightarrow> 't Context \<Rightarrow> json \<Rightarrow> (thrown + tool_result) \<times> 't Context" where
  "drag_handle env context params =
     (bind_result (dragSchema_parse params) (\<lambda>validatedParams.
      bind_result (currentTabOrDie context) (\<lambda>tab.
      bind_result (Tab_snapshotOrDie tab) (\<lambda>snapshot.
      bind_result (refLocator snapshot (v_startRef validatedParams)) (\<lambda>startLocator.
      bind_result (refLocator snapshot (v_endRef validatedParams)) (\<lambda>endLocator.
      bind_result (generateLocator env (tab_page tab) startLocator) (\<lambda>generatedStart.
      bind_result (generateLocator env (tab_page tab) endLocator) (\<lambda>generatedEnd.
      Inr \<lparr>code =
             [''// Drag '' @ v_startElement validatedParams @ '' to '' @
                v_endElement validatedParams,
              ''await page.'' @ generatedStart @ ''.dragTo(page.'' @ generatedEnd @ '');''],
           action = Some (DragTo startLocator endLocator),
           captureSnapshot = True,
           waitForNetwork = True\<rparr>))))))),
      context)"

definition hover_handle ::
  "env \<Rightarrow> 't Context \<Rightarrow> json \<Rightarrow> (thrown + tool_result) \<times> 't Context" where
  "hover_handle env context params =
     (bind_result (elementSchema_parse params) (\<lambda>validatedParams.
      bind_result (currentTabOrDie context) (\<lambda>tab.
      bind_result (Tab_snapshotOrDie tab) (\<lambda>snapshot.
      bind_result (refLocator snapshot (v_ref validatedParams)) (\<lambda>locator.
      bind_result (generateLocator env (tab_page tab) locator) (\<lambda>generated.
      Inr \<lparr>code =
             [''// Hover over '' @ v_element validatedParams,
              ''await page.'' @ generated @ ''.hover();''],
           action = Some (Hover locator),
           captureSnapshot = True,
           waitForNetwork = True\<rparr>))))),
      context)"

definition type_handle ::
  "env \<Rightarrow> 't Context \<Rightarrow> json \<Rightarrow> (thrown + tool_result) \<times> 't Context" where
  "type_handle env context params =
     (bind_result (typeSchema_parse params) (\<lambda>validatedParams.
      bind_result (currentTabOrDie context) (\<lambda>tab.
      bind_result (Tab_snapshotOrDie tab) (\<lambda>snapshot.
      bind_result (refLocator snapshot (v_ref validatedParams)) (\<lambda>locator.
      bind_result (generateLocator env (tab_page tab) locator) (\<lambda>generated.
        (let code1 =
               (if truthy_boolean (v_slowly validatedParams)
                then [''// Press \"'' @ v_text validatedParams @ ''\" sequentially into \"'' @
                        v_element validatedParams @ ''\"'',
                      ''await page.'' @ generated @ ''.pressSequentially('' @
                        quote env (v_text validatedParams) @ '');'']
                else [''// Fill \"'' @ v_text validatedParams @ ''\" into \"'' @
                        v_element validatedParams @ ''\"'',
                      ''await page.'' @ generated @ ''.fill('' @
                        quote env (v_text validatedParams) @ '');'']);
             steps1 =
               (if truthy_boolean (v_slowly validatedParams)
                then [PressSequentially locator (v_text validatedParams)]
                else [Fill locator (v_text validatedParams)])
         in
         if truthy_boolean (v_submit validatedParams)
         then bind_result (generateLocator env (tab_page tab) locator) (\<lambda>generatedSubmit.
                Inr \<lparr>code = code1 @
                       [''// Submit text'',
                        ''await page.'' @ generatedSubmit @ ''.press('' @ [CHR 0x27] @
                          ''Enter'' @ [CHR 0x27] @ '');''],
                     action = Some (Steps (steps1 @ [Press locator ''Enter''])),
                     captureSnapshot = True,
                     waitForNetwork = True\<rparr>)
         else Inr \<lparr>code = code1,
                   action = Some (Steps steps1),
                   captureSnapshot = True,
                   waitForNetwork = True\<rparr>)))))),
      context)"

definition selectOption_handle ::
  "env \<Rightarrow> 't Context \<Rightarrow> json \<Rightarrow> (thrown + tool_result) \<times> 't Context" where
  "selectOption_handle env context params =
     (bind_result (selectOptionSchema_parse params) (\<lambda>validatedParams.
      bind_result (currentTabOrDie context) (\<lambda>tab.
      bind_result (Tab_snapshotOrDie tab) (\<lambda>snapshot.
      bind_result (refLocator snapshot (v_ref validatedParams)) (\<lambda>locator.
      bind_result (generateLocator env (tab_page tab) locator) (\<lambda>generated.
      Inr \<lparr>code =
             [''// Select options ['' @ join '', '' (v_values validatedParams) @ ''] in '' @
                v_element validatedParams,
              ''await page.'' @ generated @ ''.selectOption('' @
                formatObject env (JArray (map JString (v_values validatedParams))) @ '');''],
           action = Some (SelectOption locator (v_values validatedParams)),
           captureSnapshot = True,
           waitForNetwork = True\<rparr>))))),
      context)"

definition selectRadio_handle ::
  "env \<Rightarrow> 't Context \<Rightarrow> json \<Rightarrow> (thrown + tool_result) \<times> 't Context" where
  "selectRadio_handle env context params =
     (bind_result (selectRadioSchema_parse params) (\<lambda>validatedParams.
      bind_result (currentTabOrDie context) (\<lambda>tab.
      bind_result (Tab_snapshotOrDie tab) (\<lambda>snapshot.
      bind_result (refLocator snapshot (v_ref validatedParams)) (\<lambda>locator.
      bind_result (generateLocator env (tab_page tab) locator) (\<lambda>generated.
      Inr \<lparr>code =
             [''// Select radio button \"'' @ v_element validatedParams @
                ''\" with value \"'' @ v_value validatedParams @ ''\"'',
              ''await page.'' @ generated @ ''.check();''],
           action = Some (Check locator),
           captureSnapshot = True,
           waitForNetwork = True\<rparr>))))),
      context)"

definition screenshot_handle ::
  "env \<Rightarrow> 't Context \<Rightarrow> json \<Rightarrow> (thrown + tool_result) \<times> 't Context" where
  "screenshot_handle env context params =
     (bind_result (screenshotSchema_parse params) (\<lambda>validatedParams.
      bind_result (currentTabOrDie context) (\<lambda>tab.
      bind_result (Tab_snapshotOrDie tab) (\<lambda>snapshot.
        (let fileType = (if truthy_boolean (s_raw validatedParams) then ''png'' else ''jpeg'');
             fileName =
               path_join env (tmpdir env)
                 (sanitizeForFilePath env (''page-'' @ toISOString env)) @ ''.'' @ fileType;
             options =
               JObject [(''type'', JString fileType),
                        (''quality'', if fileType = ''png'' then JUndefined else JNumber 50),
                        (''scale'', JString ''css''),
                        (''path'', JString fileName)];
             isElementScreenshot =
               (truthy_string (s_element validatedParams) \<and>
                truthy_string (s_ref validatedParams));
             code0 =
               [''// Screenshot '' @
                  (if isElementScreenshot
                   then (case s_element validatedParams of Some e \<Rightarrow> e | None \<Rightarrow> [])
                   else ''viewport'') @
                  '' and save it as '' @ fileName]
         in
         if truthy_string (s_ref validatedParams)
         then bind_result
                (refLocator snapshot
                   (case s_ref validatedParams of Some r \<Rightarrow> r | None \<Rightarrow> []))
                (\<lambda>locator.
              bind_result (generateLocator env (tab_page tab) locator) (\<lambda>generated.
                Inr \<lparr>code = code0 @
                       [''await page.'' @ generated @ ''.screenshot('' @
                          formatObject env options @ '');''],
                     action = Some (TakeScreenshot (Some locator) options fileType),
                     captureSnapshot = True,
                     waitForNetwork = False\<rparr>))
         else Inr \<lparr>code = code0 @
                     [''await page.screenshot('' @ formatObject env options @ '');''],
                   action = Some (TakeScreenshot None options fileType),
                   captureSnapshot = True,
                   waitForNetwork = False\<rparr>)))),
      context)"

text \<open>The tools and the list the module exports.\<close>

definition snapshot_tool :: "'t tool" where
  "snapshot_tool =
     \<lparr>capability = ''core'', schema_name = ''browser_snapshot'',
      clearsModalState = None, handle = snapshot_handle\<rparr>"

definition click_tool :: "'t tool" where
  "click_tool =
     \<lparr>capability = ''core'', schema_name = ''browser_click'',
      clearsModalState = None, handle = click_handle\<rparr>"

definition drag_tool :: "'t tool" where
  "drag_tool =
     \<lparr>capability = ''core'', schema_name = ''browser_drag'',
      clearsModalState = None, handle = drag_handle\<rparr>"

definition hover_tool :: "'t tool" where
  "hover_tool =
     \<lparr>capability = ''core'', schema_name = ''browser_hover'',
      clearsModalState = None, handle = hover_handle\<rparr>"

definition type_tool :: "'t tool" where
  "type_tool =
     \<lparr>capability = ''core'', schema_name = ''browser_type'',
      clearsModalState = None, handle = type_handle\<rparr>"

definition selectOption_tool :: "'t tool" where
  "selectOption_tool =
     \<lparr>capability = ''core'', schema_name = ''browser_select_option'',
      clearsModalState = None, handle = selectOption_handle\<rparr>"

definition selectRadio_tool :: "'t tool" where
  "selectRadio_tool =
     \<lparr>capability = ''core'', schema_name = ''browser_select_radio'',
      clearsModalState = None, handle = selectRadio_handle\<rparr>"

definition screenshot_tool :: "'t tool" where
  "screenshot_tool =
     \<lparr>capability = ''core'', schema_name = ''browser_take_screenshot'',
      clearsModalState = None, handle = screenshot_handle\<rparr>"

definition snapshot_tools :: "'t tool list" where
  "snapshot_tools =
     [snapshot_tool, click_tool, drag_tool, hover_tool, type_tool, selectOption_tool,
      selectRadio_tool, screenshot_tool]"

section \<open>The dispatcher of \<^verbatim>\<open>src/server.ts\<close>\<close>

record request =
  params_name :: string
  params_arguments :: json

definition createErrorResponse :: "message \<Rightarrow> response" where
  "createErrorResponse text = \<lparr>content = [TextContent text], isError = True\<rparr>"

text \<open>
  Modelled from the spec: \<^verbatim>\<open>Context.modalStatesMarkdown\<close> of \<^verbatim>\<open>context.ts\<close>, which is not
  among the sources. It enumerates the currently active modal states in a caller-displayable
  form: one line for each, in the form \<open>display\<close> gives it.
\<close>

definition modalStatesMarkdown ::
  "('t modal_state \<Rightarrow> string) \<Rightarrow> 't Context \<Rightarrow> string list" where
  "modalStatesMarkdown display context = map display (modalStates context)"

text \<open>
  The condition under which \<^verbatim>\<open>handleToolExecution\<close> rejects a call, as the source writes
  it: the tool declares a type that is not among the types of the active modal states, or it
  declares none and there are active modal states.
\<close>

definition gate_rejects :: "'t tool \<Rightarrow> 't Context \<Rightarrow> bool" where
  "gate_rejects tool context =
     (let types = map state_type (modalStates context) in
      (case clearsModalState tool of
         Some declared \<Rightarrow> declared \<notin> set types
       | None \<Rightarrow> False) \<or>
      (clearsModalState tool = None \<and> length types \<noteq> 0))"

text \<open>
  \<^verbatim>\<open>handleToolExecution(tool, context, request)\<close>. \<^verbatim>\<open>context.run\<close> is a method of the
  \<^verbatim>\<open>Context\<close> class and a parameter here: given the tool, the arguments and the context it
  resolves to a response or rejects, and leaves a context behind. The function is
  asynchronous; its own promise is a value of the same kind. Its two branches are named:
  \<open>modal_state_rejection\<close> is the response of the \<^verbatim>\<open>if\<close>, \<open>try_run\<close> is the
  \<^verbatim>\<open>try\<close> statement around \<^verbatim>\<open>context.run\<close>.
\<close>

definition modal_state_rejection ::
  "('t modal_state \<Rightarrow> string) \<Rightarrow> 't Context \<Rightarrow> request \<Rightarrow> (thrown + response) \<times> 't Context" where
  "modal_state_rejection display context request =
     (let text =
            join [CHR 0x0A]
              ((''Tool \"'' @ params_name request @ ''\" does not handle the modal state.'') #
               modalStatesMarkdown display context)
      in (Inr (createErrorResponse (Text text)), context))"

definition try_run ::
  "('t tool \<Rightarrow> json \<Rightarrow> 't Context \<Rightarrow> (thrown + response) \<times> 't Context) \<Rightarrow>
   't tool \<Rightarrow> 't Context \<Rightarrow> request \<Rightarrow> (thrown + response) \<times> 't Context" where
  "try_run run tool context request =
     (case run tool (params_arguments request) context of
        (Inr result, context') \<Rightarrow> (Inr result, context')
      | (Inl error, context') \<Rightarrow> (Inr (createErrorResponse (StringOf error)), context'))"

definition handleToolExecution ::
  "('t tool \<Rightarrow> json \<Rightarrow> 't Context \<Rightarrow> (thrown + response) \<times> 't Context) \<Rightarrow>
   ('t modal_state \<Rightarrow> string) \<Rightarrow>
   't tool \<Rightarrow> 't Context \<Rightarrow> request \<Rightarrow> (thrown + response) \<times> 't Context" where
  "handleToolExecution run display tool context request =
     (if gate_rejects tool context
      then modal_state_rejection display context request
      else try_run run tool context request)"

text \<open>
  The handler \<^verbatim>\<open>setupRequestHandlers\<close> registers for a tool call: look the tool up by name,
  answer with an error response if there is none, and execute it otherwise.
\<close>

definition callTool ::
  "('t tool \<Rightarrow> json \<Rightarrow> 't Context \<Rightarrow> (thrown + response) \<times> 't Context) \<Rightarrow>
   ('t modal_state \<Rightarrow> string) \<Rightarrow>
   't tool list \<Rightarrow> 't Context \<Rightarrow> request \<Rightarrow> (thrown + response) \<times> 't Context" where
  "callTool run display tools context request =
     (case find (\<lambda>tool. schema_name tool = params_name request) tools of
        None \<Rightarrow>
          (Inr (createErrorResponse
                  (Text (''Tool \"'' @ params_name request @ ''\" not found''))),
           context)
      | Some tool \<Rightarrow> handleToolExecution run display tool context request)"

text \<open>
  Modelled from the spec: \<^verbatim>\<open>Context.run\<close> of \<^verbatim>\<open>context.ts\<close>, which is not among the
  sources (steps 3 to 8 of the dispatcher's algorithm). It invokes the handler, which
  validates the arguments and plans; it executes the deferred operation on the page of the
  current Tab; it recaptures the snapshot if the Pending Action asks for it; and it assembles
  the response from the trace lines, the payload and the text of the fresh snapshot. A
  failure of the handler or of the operation rejects the promise. Waiting for the network
  changes nothing in this state and is left out.
\<close>

definition Context_run ::
  "env \<Rightarrow> 't tool \<Rightarrow> json \<Rightarrow> 't Context \<Rightarrow> (thrown + response) \<times> 't Context" where
  "Context_run env tool params context =
     (case handle tool env context params of
        (Inl err, context1) \<Rightarrow> (Inl err, context1)
      | (Inr result, context1) \<Rightarrow>
          (case currentTabOrDie context1 of
             Inl err \<Rightarrow> (Inl err, context1)
           | Inr tab \<Rightarrow>
               (case (case action result of
                        None \<Rightarrow> (Inr [], tab_page tab)
                      | Some deferred \<Rightarrow> perform env deferred (tab_page tab)) of
                  (Inl err, page') \<Rightarrow>
                    (Inl err, context1\<lparr>currentTab := Some (tab\<lparr>tab_page := page'\<rparr>)\<rparr>)
                | (Inr payload, page') \<Rightarrow>
                    (if captureSnapshot result
                     then (Inr \<lparr>content =
                                  TextContent (Text (join [CHR 0x0A] (code result))) # payload @
                                  [TextContent (Text (snapshot_text (capture page')))],
                                isError = False\<rparr>,
                           context1\<lparr>currentTab :=
                             Some (Tab_captureSnapshot (tab\<lparr>tab_page := page'\<rparr>))\<rparr>)
                     else (Inr \<lparr>content =
                                  TextContent (Text (join [CHR 0x0A] (code result))) # payload,
                                isError = False\<rparr>,
                           context1\<lparr>currentTab := Some (tab\<lparr>tab_page := page'\<rparr>)\<rparr>)))))"

section \<open>The scenarios of the spec, as values\<close>

text \<open>
  A page of twelve interactive nodes whose last capture had generation 3, the Tab that made
  that capture, and a session on it with no modal state and with a native dialog open. The
  tool of scenario 3 declares that it clears the dialog, and its handler removes it from the
  active set. The collaborators are fixed to simple ones: every locator can be generated,
  every operation succeeds and leaves the page as it is.
\<close>

definition scenario_page :: page where
  "scenario_page =
     \<lparr>page_generation = 3,
      page_nodes = map (\<lambda>i. ''button '' @ String_nat i) [1 ..< 13]\<rparr>"

definition scenario_tab :: tab where
  "scenario_tab =
     Tab_captureSnapshot
       \<lparr>tab_page = scenario_page\<lparr>page_generation := 2\<rparr>, tab_snapshot = None\<rparr>"

definition scenario_context :: "string Context" where
  "scenario_context = \<lparr>modalStates = [], currentTab = Some scenario_tab\<rparr>"

definition scenario_dialog :: "string Context" where
  "scenario_dialog =
     \<lparr>modalStates = [\<lparr>state_type = ''dialog'', description = ''alert dialog''\<rparr>],
      currentTab = Some scenario_tab\<rparr>"

definition dialog_tool :: "string tool" where
  "dialog_tool =
     \<lparr>capability = ''core'', schema_name = ''browser_handle_dialog'',
      clearsModalState = Some ''dialog'',
      handle = (\<lambda>env context params.
        (Inr \<lparr>code = [''// <internal code to handle the dialog>''],
              action = None,
              captureSnapshot = False,
              waitForNetwork = False\<rparr>,
         context\<lparr>modalStates :=
           filter (\<lambda>state. state_type state \<noteq> ''dialog'') (modalStates context)\<rparr>))\<rparr>"

definition scenario_env :: env where
  "scenario_env =
     \<lparr>generateLocator =
        (\<lambda>page locator. case locator of Locator ref node \<Rightarrow> Inr (''locator('' @ ref @ '')'')),
      quote = (\<lambda>s. [CHR 0x27] @ s @ [CHR 0x27]),
      formatObject = (\<lambda>v. ''{}''),
      sanitizeForFilePath = (\<lambda>s. s),
      path_join = (\<lambda>dir file. dir @ ''/'' @ file),
      tmpdir = ''/tmp'',
      toISOString = ''2025-01-01T00:00:00.000Z'',
      newPage = Inr \<lparr>page_generation = 0, page_nodes = []\<rparr>,
      perform = (\<lambda>deferred page. (Inr [], page))\<rparr>"

definition element_arguments :: "string \<Rightarrow> string \<Rightarrow> json" where
  "element_arguments element ref =
     JObject [(''element'', JString element), (''ref'', JString ref)]"

text \<open>
  The session a click on \<^verbatim>\<open>s3e12\<close> leaves behind in the first session: the click fails
  (claim C3), the page has been captured once more, and the Tab still holds the snapshot of
  generation 3.
\<close>

definition scenario_after_click :: "string Context" where
  "scenario_after_click =
     scenario_context\<lparr>currentTab :=
       Some (scenario_tab\<lparr>tab_page := scenario_page\<lparr>page_generation := 4\<rparr>\<rparr>)\<rparr>"

section \<open>Digits, references and the resolver: basic facts\<close>

lemma digit_char_cases: "d < 10 \<Longrightarrow> d \<in> {0,1,2,3,4,5,6,7,8,9::nat}"
  by auto

lemma is_digit_digit_char: "d < 10 \<Longrightarrow> is_digit (digit_char d)"
  using digit_char_cases [of d] by (auto simp: is_digit_def digit_char_def)

lemma digit_value_digit_char: "d < 10 \<Longrightarrow> digit_value (digit_char d) = d"
  using digit_char_cases [of d] by (auto simp: digit_value_def digit_char_def)

lemma String_nat_digits: "\<forall>c \<in> set (String_nat n). is_digit c"
proof (induction n rule: String_nat.induct)
  case (1 n)
  show ?case
  proof (cases "n < 10")
    case True
    then show ?thesis by (simp add: String_nat.simps [of n] is_digit_digit_char)
  next
    case False
    with 1 show ?thesis by (simp add: String_nat.simps [of n] is_digit_digit_char)
  qed
qed

lemma String_nat_not_Nil: "String_nat n \<noteq> []"
  by (simp add: String_nat.simps [of n])

lemma String_nat_0: "String_nat 0 = ''0''"
  by (simp add: String_nat.simps [of 0] digit_char_def)

lemma parseInt_snoc: "parseInt (ds @ [c]) = 10 * parseInt ds + digit_value c"
  by (simp add: parseInt_def)

lemma parseInt_String_nat: "parseInt (String_nat n) = n"
proof (induction n rule: String_nat.induct)
  case (1 n)
  show ?case
  proof (cases "n < 10")
    case True
    then show ?thesis
      by (simp add: String_nat.simps [of n] parseInt_def digit_value_digit_char)
  next
    case False
    with 1 show ?thesis
      by (simp add: String_nat.simps [of n] parseInt_snoc digit_value_digit_char)
  qed
qed

lemma not_is_digit_e: "\<not> is_digit CHR ''e''"
  by (simp add: is_digit_def)

lemma takeWhile_digits: "takeWhile is_digit (String_nat g @ CHR ''e'' # rest) = String_nat g"
  using String_nat_digits [of g] by (simp add: takeWhile_append2 not_is_digit_e)

lemma dropWhile_digits: "dropWhile is_digit (String_nat g @ CHR ''e'' # rest) = CHR ''e'' # rest"
  using String_nat_digits [of g] by (simp add: dropWhile_append2 not_is_digit_e)

text \<open>
  The two searches are the leftmost matches of their regular expressions: \<open>leftmost\<close>
  returns the match at the first position that has one, and the expressions matched at a
  position are characterised by the shape of the text there.
\<close>

lemma takeWhile_dropWhile_digits:
  assumes "\<forall>c \<in> set ds. is_digit c" and "takeWhile is_digit rest = []"
  shows "takeWhile is_digit (ds @ rest) = ds"
  using assms by (simp add: takeWhile_append2)

lemma generation_here_Some_iff:
  "generation_here t = Some ds \<longleftrightarrow>
     (\<exists>rest. t = ''s'' @ ds @ ''e'' @ rest \<and> ds \<noteq> [] \<and> (\<forall>c \<in> set ds. is_digit c))"
proof
  assume "generation_here t = Some ds"
  then obtain cs where t: "t = CHR ''s'' # cs" and ds: "ds = takeWhile is_digit cs"
    and nonempty: "takeWhile is_digit cs \<noteq> []"
    and e: "startsWith (dropWhile is_digit cs) ''e''"
    by (auto simp add: generation_here_def split: list.splits if_splits)
  from e obtain rest where rest: "dropWhile is_digit cs = CHR ''e'' # rest"
    by (cases "dropWhile is_digit cs") (auto simp add: startsWith_def)
  have "cs = takeWhile is_digit cs @ dropWhile is_digit cs"
    by simp
  with rest ds have "cs = ds @ CHR ''e'' # rest"
    by simp
  moreover have "\<forall>c \<in> set ds. is_digit c"
    unfolding ds by (auto dest: set_takeWhileD)
  ultimately show "\<exists>rest. t = ''s'' @ ds @ ''e'' @ rest \<and> ds \<noteq> [] \<and>
      (\<forall>c \<in> set ds. is_digit c)"
    using t nonempty ds by auto
next
  assume "\<exists>rest. t = ''s'' @ ds @ ''e'' @ rest \<and> ds \<noteq> [] \<and> (\<forall>c \<in> set ds. is_digit c)"
  then obtain rest where t: "t = CHR ''s'' # ds @ CHR ''e'' # rest" and "ds \<noteq> []"
    and digits: "\<forall>c \<in> set ds. is_digit c"
    by auto
  from digits have "takeWhile is_digit (ds @ CHR ''e'' # rest) = ds"
    by (simp add: takeWhile_append2 not_is_digit_e)
  moreover from digits have "dropWhile is_digit (ds @ CHR ''e'' # rest) = CHR ''e'' # rest"
    by (simp add: dropWhile_append2 not_is_digit_e)
  ultimately show "generation_here t = Some ds"
    using \<open>ds \<noteq> []\<close> by (simp add: t generation_here_def startsWith_def)
qed

lemma leftmost_Some_iff:
  "leftmost here t = Some m \<longleftrightarrow>
     (\<exists>k < length t. here (drop k t) = Some m \<and>
        (\<forall>j < k. here (drop j t) = None))"
proof (induction t)
  case Nil
  then show ?case by simp
next
  case (Cons c cs)
  show ?case
  proof (cases "here (c # cs)")
    case (Some found)
    have "(\<exists>k < length (c # cs). here (drop k (c # cs)) = Some m \<and>
        (\<forall>j < k. here (drop j (c # cs)) = None)) \<longleftrightarrow> found = m"
    proof
      assume "\<exists>k < length (c # cs). here (drop k (c # cs)) = Some m \<and>
        (\<forall>j < k. here (drop j (c # cs)) = None)"
      then obtain k where k: "here (drop k (c # cs)) = Some m"
        and first: "\<forall>j < k. here (drop j (c # cs)) = None"
        by blast
      have "k = 0"
      proof (rule ccontr)
        assume "k \<noteq> 0"
        with first have "here (drop 0 (c # cs)) = None"
          by blast
        with Some show False by simp
      qed
      with k Some show "found = m" by simp
    next
      assume "found = m"
      with Some have "here (drop 0 (c # cs)) = Some m \<and>
        (\<forall>j < (0::nat). here (drop j (c # cs)) = None)"
        by simp
      then show "\<exists>k < length (c # cs). here (drop k (c # cs)) = Some m \<and>
        (\<forall>j < k. here (drop j (c # cs)) = None)"
        by (intro exI [of _ 0]) simp
    qed
    with Some show ?thesis by simp
  next
    case None
    have "(\<exists>k < length (c # cs). here (drop k (c # cs)) = Some m \<and>
        (\<forall>j < k. here (drop j (c # cs)) = None)) \<longleftrightarrow>
      (\<exists>k < length cs. here (drop k cs) = Some m \<and>
        (\<forall>j < k. here (drop j cs) = None))"
    proof
      assume "\<exists>k < length (c # cs). here (drop k (c # cs)) = Some m \<and>
        (\<forall>j < k. here (drop j (c # cs)) = None)"
      then obtain k where bound: "k < length (c # cs)"
        and k: "here (drop k (c # cs)) = Some m"
        and first: "\<forall>j < k. here (drop j (c # cs)) = None"
        by blast
      from k None obtain k' where k': "k = Suc k'"
        by (cases k) auto
      from first have "\<forall>j < k'. here (drop (Suc j) (c # cs)) = None"
        unfolding k' by blast
      with bound k show "\<exists>k < length cs. here (drop k cs) = Some m \<and>
        (\<forall>j < k. here (drop j cs) = None)"
        unfolding k' by (intro exI [of _ k']) simp
    next
      assume "\<exists>k < length cs. here (drop k cs) = Some m \<and>
        (\<forall>j < k. here (drop j cs) = None)"
      then obtain k where bound: "k < length cs"
        and k: "here (drop k cs) = Some m"
        and first: "\<forall>j < k. here (drop j cs) = None"
        by blast
      have "\<forall>j < Suc k. here (drop j (c # cs)) = None"
      proof (intro allI impI)
        fix j
        assume "j < Suc k"
        then show "here (drop j (c # cs)) = None"
          using None first by (cases j) auto
      qed
      with bound k show "\<exists>k < length (c # cs). here (drop k (c # cs)) = Some m \<and>
        (\<forall>j < k. here (drop j (c # cs)) = None)"
        by (intro exI [of _ "Suc k"]) simp
    qed
    with None Cons.IH show ?thesis by simp
  qed
qed

lemma ref_here_Some_iff:
  "ref_here p t = Some r \<longleftrightarrow>
     (\<exists>ds rest. t = ''ref='' @ p @ ds @ rest \<and> ds \<noteq> [] \<and> (\<forall>c \<in> set ds. is_digit c) \<and>
        takeWhile is_digit rest = [] \<and> r = p @ ds)"
proof
  assume "ref_here p t = Some r"
  then have start: "startsWith t (''ref='' @ p)"
    and nonempty: "takeWhile is_digit (drop (length (''ref='' @ p)) t) \<noteq> []"
    and r: "r = p @ takeWhile is_digit (drop (length (''ref='' @ p)) t)"
    by (auto simp add: ref_here_def split: if_splits)
  define after where "after = drop (length (''ref='' @ p)) t"
  from start have "t = (''ref='' @ p) @ after"
    unfolding after_def startsWith_def by (metis append_take_drop_id)
  moreover have "after = takeWhile is_digit after @ dropWhile is_digit after"
    by simp
  ultimately have "t = ''ref='' @ p @ takeWhile is_digit after @ dropWhile is_digit after"
    by simp
  moreover have "\<forall>c \<in> set (takeWhile is_digit after). is_digit c"
    by (auto dest: set_takeWhileD)
  moreover have "takeWhile is_digit (dropWhile is_digit after) = []"
    by (metis dropWhile_eq_Nil_conv hd_dropWhile takeWhile.simps(1) takeWhile_eq_Nil_iff)
  ultimately show "\<exists>ds rest. t = ''ref='' @ p @ ds @ rest \<and> ds \<noteq> [] \<and>
      (\<forall>c \<in> set ds. is_digit c) \<and> takeWhile is_digit rest = [] \<and> r = p @ ds"
    using nonempty r unfolding after_def by blast
next
  assume "\<exists>ds rest. t = ''ref='' @ p @ ds @ rest \<and> ds \<noteq> [] \<and> (\<forall>c \<in> set ds. is_digit c) \<and>
      takeWhile is_digit rest = [] \<and> r = p @ ds"
  then obtain ds rest where t: "t = (''ref='' @ p) @ ds @ rest" and "ds \<noteq> []"
    and digits: "\<forall>c \<in> set ds. is_digit c" and stop: "takeWhile is_digit rest = []"
    and r: "r = p @ ds"
    by auto
  have start: "startsWith t (''ref='' @ p)"
    unfolding t startsWith_def by simp
  have "drop (length (''ref='' @ p)) t = ds @ rest"
    unfolding t by simp
  moreover from digits stop have "takeWhile is_digit (ds @ rest) = ds"
    by (rule takeWhile_dropWhile_digits)
  ultimately show "ref_here p t = Some r"
    using start \<open>ds \<noteq> []\<close> r by (simp add: ref_here_def)
qed

lemma match_ref_Some_iff:
  "match_ref p t = Some r \<longleftrightarrow>
     (\<exists>k < length t. ref_here p (drop k t) = Some r \<and>
        (\<forall>j < k. ref_here p (drop j t) = None))"
  by (simp add: match_ref_def leftmost_Some_iff)

lemma match_generation_Some_iff:
  "match_generation t = Some ds \<longleftrightarrow>
     (\<exists>k < length t. generation_here (drop k t) = Some ds \<and>
        (\<forall>j < k. generation_here (drop j t) = None))"
  by (simp add: match_generation_def leftmost_Some_iff)

lemma leftmost_None_iff:
  "leftmost here t = None \<longleftrightarrow> (\<forall>k < length t. here (drop k t) = None)"
proof (induction t)
  case Nil
  then show ?case by simp
next
  case (Cons c cs)
  show ?case
  proof (cases "here (c # cs)")
    case None
    have "(\<forall>k < length (c # cs). here (drop k (c # cs)) = None) \<longleftrightarrow>
        (\<forall>k < length cs. here (drop k cs) = None)"
    proof
      assume all: "\<forall>k < length (c # cs). here (drop k (c # cs)) = None"
      show "\<forall>k < length cs. here (drop k cs) = None"
      proof (intro allI impI)
        fix k
        assume "k < length cs"
        with all have "here (drop (Suc k) (c # cs)) = None"
          by auto
        then show "here (drop k cs) = None"
          by simp
      qed
    next
      assume all: "\<forall>k < length cs. here (drop k cs) = None"
      show "\<forall>k < length (c # cs). here (drop k (c # cs)) = None"
      proof (intro allI impI)
        fix k
        assume "k < length (c # cs)"
        then show "here (drop k (c # cs)) = None"
          using None all by (cases k) auto
      qed
    qed
    with None Cons.IH show ?thesis by simp
  next
    case (Some found)
    then have "\<not> (\<forall>k < length (c # cs). here (drop k (c # cs)) = None)"
      by (auto intro: exI [of _ 0])
    with Some show ?thesis by simp
  qed
qed

lemma match_generation_None_iff:
  "match_generation ref = None \<longleftrightarrow>
     \<not> (\<exists>before ds rest. ref = before @ ''s'' @ ds @ ''e'' @ rest \<and> ds \<noteq> [] \<and>
          (\<forall>c \<in> set ds. is_digit c))"
proof
  assume none: "match_generation ref = None"
  show "\<not> (\<exists>before ds rest. ref = before @ ''s'' @ ds @ ''e'' @ rest \<and> ds \<noteq> [] \<and>
          (\<forall>c \<in> set ds. is_digit c))"
  proof
    assume "\<exists>before ds rest. ref = before @ ''s'' @ ds @ ''e'' @ rest \<and> ds \<noteq> [] \<and>
          (\<forall>c \<in> set ds. is_digit c)"
    then obtain before ds rest where ref: "ref = before @ ''s'' @ ds @ ''e'' @ rest"
      and ds: "ds \<noteq> []" "\<forall>c \<in> set ds. is_digit c"
      by blast
    have "generation_here (drop (length before) ref) = Some ds"
      unfolding ref using ds by (simp add: generation_here_Some_iff)
    moreover have "length before < length ref"
      unfolding ref by simp
    ultimately show False
      using none by (auto simp add: match_generation_def leftmost_None_iff)
  qed
next
  assume no_substring: "\<not> (\<exists>before ds rest. ref = before @ ''s'' @ ds @ ''e'' @ rest \<and>
      ds \<noteq> [] \<and> (\<forall>c \<in> set ds. is_digit c))"
  have "generation_here (drop k ref) = None" for k
  proof (cases "generation_here (drop k ref)")
    case None
    then show ?thesis .
  next
    case (Some ds)
    then obtain rest where "drop k ref = ''s'' @ ds @ ''e'' @ rest" and "ds \<noteq> []"
      and "\<forall>c \<in> set ds. is_digit c"
      unfolding generation_here_Some_iff by blast
    moreover have "ref = take k ref @ drop k ref"
      by simp
    ultimately have "ref = take k ref @ ''s'' @ ds @ ''e'' @ rest \<and> ds \<noteq> [] \<and>
        (\<forall>c \<in> set ds. is_digit c)"
      by simp
    with no_substring show ?thesis
      by blast
  qed
  then show "match_generation ref = None"
    by (simp add: match_generation_def leftmost_None_iff)
qed

text \<open>References, and what the resolver computes.\<close>

lemma match_generation_reference: "match_generation (reference g i) = Some (String_nat g)"
  by (simp add: reference_def match_generation_def generation_here_def takeWhile_digits
      dropWhile_digits String_nat_not_Nil startsWith_def)

lemma ref_generation_reference: "ref_generation (reference g i) = g"
  by (simp add: ref_generation_def match_generation_reference parseInt_String_nat)

lemma startsWith_reference: "startsWith (reference g i) (''s'' @ String_nat g @ ''e'')"
  by (simp add: startsWith_def reference_def)

lemma startsWith_s0e:
  assumes "startsWith ref ''s0e''"
  shows "match_generation ref = Some ''0''"
proof -
  from assms have "take 3 ref = ''s0e''"
    by (simp add: startsWith_def numeral_3_eq_3)
  then have "ref = ''s0e'' @ drop 3 ref"
    by (metis append_take_drop_id)
  then obtain rest where ref: "ref = CHR ''s'' # CHR ''0'' # CHR ''e'' # rest"
    by simp
  show ?thesis
    unfolding ref
    by (simp add: match_generation_def generation_here_def is_digit_def startsWith_def)
qed

lemma snapshotOrDie_capture: "Tab_snapshotOrDie (Tab_captureSnapshot t) = Inr (capture (tab_page t))"
  by (simp add: Tab_snapshotOrDie_def Tab_captureSnapshot_def)

lemma handleStaleRef_eq:
  "handleStaleRef page ref =
     (Inr (if startsWith ref (''s'' @ String_nat (ref_generation ref) @ ''e'')
           then (case match_ref (''s'' @ String_nat (ref_generation ref + 1) @ ''e'')
                        (snapshot_text (capture page)) of
                   None \<Rightarrow> ref | Some newRef \<Rightarrow> newRef)
           else ref),
      page\<lparr>page_generation := page_generation page + 1\<rparr>)"
proof -
  have page': "tab_page (Tab_captureSnapshot \<lparr>tab_page = page, tab_snapshot = None\<rparr>) =
      page\<lparr>page_generation := page_generation page + 1\<rparr>"
    by (simp add: Tab_captureSnapshot_def)
  show ?thesis
    unfolding handleStaleRef_def Let_def snapshotOrDie_capture page'
    by (simp split: option.split)
qed

lemma handleStaleRef_unmatched_generation:
  assumes "match_generation ref = None"
  shows "handleStaleRef page ref = (Inr ref, page\<lparr>page_generation := page_generation page + 1\<rparr>)"
proof -
  from assms have g: "ref_generation ref = 0"
    by (simp add: ref_generation_def parseInt_def digit_value_def)
  from assms have "\<not> startsWith ref ''s0e''"
    using startsWith_s0e [of ref] by auto
  then show ?thesis
    by (simp add: handleStaleRef_eq g String_nat_0)
qed

section \<open>Handlers: basic facts\<close>

text \<open>A thrown value ends a handler; a handler that returns has run every step.\<close>

lemma bind_result_eq_Inr:
  "bind_result r f = Inr y \<longleftrightarrow> (\<exists>x. r = Inr x \<and> f x = Inr y)"
  by (cases r) simp_all

text \<open>What a schema throws is a list of issues, and it is thrown before anything else is done.\<close>

lemma elementSchema_parse_error:
  "elementSchema_parse params = Inl err \<Longrightarrow> \<exists>issues. err = InvalidArgumentsError issues"
  by (auto simp add: elementSchema_parse_def Let_def split: json.splits if_splits)

lemma dragSchema_parse_error:
  "dragSchema_parse params = Inl err \<Longrightarrow> \<exists>issues. err = InvalidArgumentsError issues"
  by (auto simp add: dragSchema_parse_def Let_def split: json.splits if_splits)

lemma typeSchema_parse_error:
  "typeSchema_parse params = Inl err \<Longrightarrow> \<exists>issues. err = InvalidArgumentsError issues"
  by (auto simp add: typeSchema_parse_def Let_def split: json.splits if_splits)

lemma selectOptionSchema_parse_error:
  "selectOptionSchema_parse params = Inl err \<Longrightarrow> \<exists>issues. err = InvalidArgumentsError issues"
  by (auto simp add: selectOptionSchema_parse_def Let_def split: json.splits if_splits)

lemma selectRadioSchema_parse_error:
  "selectRadioSchema_parse params = Inl err \<Longrightarrow> \<exists>issues. err = InvalidArgumentsError issues"
  by (auto simp add: selectRadioSchema_parse_def Let_def split: json.splits if_splits)

lemma screenshotSchema_parse_error:
  "screenshotSchema_parse params = Inl err \<Longrightarrow> \<exists>issues. err = InvalidArgumentsError issues"
  by (auto simp add: screenshotSchema_parse_def Let_def split: json.splits if_splits)

lemma parse_undefined:
  "elementSchema_parse JUndefined = Inl (InvalidArgumentsError [NotAnObject])"
  "dragSchema_parse JUndefined = Inl (InvalidArgumentsError [NotAnObject])"
  "typeSchema_parse JUndefined = Inl (InvalidArgumentsError [NotAnObject])"
  "selectOptionSchema_parse JUndefined = Inl (InvalidArgumentsError [NotAnObject])"
  "selectRadioSchema_parse JUndefined = Inl (InvalidArgumentsError [NotAnObject])"
  "screenshotSchema_parse JUndefined = Inl (InvalidArgumentsError [NotAnObject])"
  by (simp_all add: elementSchema_parse_def dragSchema_parse_def typeSchema_parse_def
      selectOptionSchema_parse_def selectRadioSchema_parse_def screenshotSchema_parse_def)

lemma click_handle_invalid:
  "elementSchema_parse params = Inl err \<Longrightarrow> click_handle env context params = (Inl err, context)"
  by (simp add: click_handle_def)

lemma hover_handle_invalid:
  "elementSchema_parse params = Inl err \<Longrightarrow> hover_handle env context params = (Inl err, context)"
  by (simp add: hover_handle_def)

lemma drag_handle_invalid:
  "dragSchema_parse params = Inl err \<Longrightarrow> drag_handle env context params = (Inl err, context)"
  by (simp add: drag_handle_def)

lemma type_handle_invalid:
  "typeSchema_parse params = Inl err \<Longrightarrow> type_handle env context params = (Inl err, context)"
  by (simp add: type_handle_def)

lemma selectOption_handle_invalid:
  "selectOptionSchema_parse params = Inl err \<Longrightarrow>
     selectOption_handle env context params = (Inl err, context)"
  by (simp add: selectOption_handle_def)

lemma selectRadio_handle_invalid:
  "selectRadioSchema_parse params = Inl err \<Longrightarrow>
     selectRadio_handle env context params = (Inl err, context)"
  by (simp add: selectRadio_handle_def)

lemma screenshot_handle_invalid:
  "screenshotSchema_parse params = Inl err \<Longrightarrow>
     screenshot_handle env context params = (Inl err, context)"
  by (simp add: screenshot_handle_def)

text \<open>
  A handler does not run deferred operations: what it returns does not depend on how the
  driver performs them.
\<close>

lemma snapshot_handle_plans:
  "snapshot_handle (env\<lparr>perform := p\<rparr>) context params = snapshot_handle env context params"
  by (simp add: snapshot_handle_def ensureTab_def cong: option.case_cong sum.case_cong prod.case_cong)

lemma click_handle_plans:
  "click_handle (env\<lparr>perform := p\<rparr>) context params = click_handle env context params"
  by (simp add: click_handle_def cong: option.case_cong sum.case_cong prod.case_cong if_cong)

lemma drag_handle_plans:
  "drag_handle (env\<lparr>perform := p\<rparr>) context params = drag_handle env context params"
  by (simp add: drag_handle_def cong: option.case_cong sum.case_cong prod.case_cong if_cong)

lemma hover_handle_plans:
  "hover_handle (env\<lparr>perform := p\<rparr>) context params = hover_handle env context params"
  by (simp add: hover_handle_def cong: option.case_cong sum.case_cong prod.case_cong if_cong)

lemma type_handle_plans:
  "type_handle (env\<lparr>perform := p\<rparr>) context params = type_handle env context params"
  by (simp add: type_handle_def cong: option.case_cong sum.case_cong prod.case_cong if_cong)

lemma selectOption_handle_plans:
  "selectOption_handle (env\<lparr>perform := p\<rparr>) context params =
     selectOption_handle env context params"
  by (simp add: selectOption_handle_def cong: option.case_cong sum.case_cong prod.case_cong if_cong)

lemma selectRadio_handle_plans:
  "selectRadio_handle (env\<lparr>perform := p\<rparr>) context params =
     selectRadio_handle env context params"
  by (simp add: selectRadio_handle_def cong: option.case_cong sum.case_cong prod.case_cong if_cong)

lemma screenshot_handle_plans:
  "screenshot_handle (env\<lparr>perform := p\<rparr>) context params =
     screenshot_handle env context params"
  by (simp add: screenshot_handle_def cong: option.case_cong sum.case_cong prod.case_cong if_cong)

text \<open>The Pending Action of each handler: its trace lines and its deferred operation.\<close>

lemma snapshot_handle_trace:
  "snapshot_handle env context params = (Inr result, context') \<Longrightarrow>
     code result \<noteq> [] \<and> action result = None"
  by (auto simp add: snapshot_handle_def split: prod.splits sum.splits)

lemma click_handle_trace:
  "click_handle env context params = (Inr result, context') \<Longrightarrow>
     length (code result) = 2 \<and> (\<exists>locator. action result = Some (Click locator))"
  by (auto simp add: click_handle_def bind_result_eq_Inr split: prod.splits sum.splits)

lemma drag_handle_trace:
  "drag_handle env context params = (Inr result, context') \<Longrightarrow>
     length (code result) = 2 \<and> (\<exists>l1 l2. action result = Some (DragTo l1 l2))"
  by (auto simp add: drag_handle_def bind_result_eq_Inr)

lemma hover_handle_trace:
  "hover_handle env context params = (Inr result, context') \<Longrightarrow>
     length (code result) = 2 \<and> (\<exists>locator. action result = Some (Hover locator))"
  by (auto simp add: hover_handle_def bind_result_eq_Inr)

lemma type_handle_trace:
  "type_handle env context params = (Inr result, context') \<Longrightarrow>
     code result \<noteq> [] \<and>
     (\<exists>steps. action result = Some (Steps steps) \<and> length (code result) = 2 * length steps)"
  by (auto simp add: type_handle_def bind_result_eq_Inr Let_def split: if_splits)

lemma selectOption_handle_trace:
  "selectOption_handle env context params = (Inr result, context') \<Longrightarrow>
     length (code result) = 2 \<and> (\<exists>locator values. action result = Some (SelectOption locator values))"
  by (auto simp add: selectOption_handle_def bind_result_eq_Inr)

lemma selectRadio_handle_trace:
  "selectRadio_handle env context params = (Inr result, context') \<Longrightarrow>
     length (code result) = 2 \<and> (\<exists>locator. action result = Some (Check locator))"
  by (auto simp add: selectRadio_handle_def bind_result_eq_Inr)

lemma screenshot_handle_trace:
  "screenshot_handle env context params = (Inr result, context') \<Longrightarrow>
     length (code result) = 2 \<and>
     (\<exists>locator options fileType. action result = Some (TakeScreenshot locator options fileType))"
  by (auto simp add: screenshot_handle_def bind_result_eq_Inr Let_def split: if_splits)

text \<open>
  When a handler returns: each of its steps has returned, and the Pending Action is written
  from what they returned.
\<close>

lemma pair_with_context:
  "(planned, context) = (Inr result, context') \<longleftrightarrow> planned = Inr result \<and> context' = context"
  by auto

lemma snapshot_handle_Inr_iff:
  "snapshot_handle env context params = (Inr result, context') \<longleftrightarrow>
     (\<exists>tab. ensureTab env context = (Inr tab, context') \<and>
        result =
          \<lparr>code = [''// <internal code to capture accessibility snapshot>''],
           action = None,
           captureSnapshot = True,
           waitForNetwork = False\<rparr>)"
  by (auto simp add: snapshot_handle_def split: prod.splits sum.splits)

lemma click_handle_Inr_iff:
  "click_handle env context params = (Inr result, context') \<longleftrightarrow>
     (\<exists>validatedParams tab ref page' snapshot locator generated.
        elementSchema_parse params = Inr validatedParams \<and>
        currentTabOrDie context = Inr tab \<and>
        handleStaleRef (tab_page tab) (v_ref validatedParams) = (Inr ref, page') \<and>
        Tab_snapshotOrDie tab = Inr snapshot \<and>
        refLocator snapshot ref = Inr locator \<and>
        generateLocator env page' locator = Inr generated \<and>
        result =
          \<lparr>code =
             [''// Click '' @ v_element validatedParams,
              ''await page.'' @ generated @ ''.click();''],
           action = Some (Click locator),
           captureSnapshot = True,
           waitForNetwork = True\<rparr> \<and>
        context' = context\<lparr>currentTab := Some (tab\<lparr>tab_page := page'\<rparr>)\<rparr>)"
  by (auto simp add: click_handle_def bind_result_eq_Inr split: prod.splits sum.splits)

lemma drag_handle_Inr_iff:
  "drag_handle env context params = (Inr result, context') \<longleftrightarrow>
     (\<exists>validatedParams tab snapshot startLocator endLocator generatedStart generatedEnd.
        dragSchema_parse params = Inr validatedParams \<and>
        currentTabOrDie context = Inr tab \<and>
        Tab_snapshotOrDie tab = Inr snapshot \<and>
        refLocator snapshot (v_startRef validatedParams) = Inr startLocator \<and>
        refLocator snapshot (v_endRef validatedParams) = Inr endLocator \<and>
        generateLocator env (tab_page tab) startLocator = Inr generatedStart \<and>
        generateLocator env (tab_page tab) endLocator = Inr generatedEnd \<and>
        result =
          \<lparr>code =
             [''// Drag '' @ v_startElement validatedParams @ '' to '' @
                v_endElement validatedParams,
              ''await page.'' @ generatedStart @ ''.dragTo(page.'' @ generatedEnd @ '');''],
           action = Some (DragTo startLocator endLocator),
           captureSnapshot = True,
           waitForNetwork = True\<rparr> \<and>
        context' = context)"
  unfolding drag_handle_def pair_with_context bind_result_eq_Inr by blast

lemma hover_handle_Inr_iff:
  "hover_handle env context params = (Inr result, context') \<longleftrightarrow>
     (\<exists>validatedParams tab snapshot locator generated.
        elementSchema_parse params = Inr validatedParams \<and>
        currentTabOrDie context = Inr tab \<and>
        Tab_snapshotOrDie tab = Inr snapshot \<and>
        refLocator snapshot (v_ref validatedParams) = Inr locator \<and>
        generateLocator env (tab_page tab) locator = Inr generated \<and>
        result =
          \<lparr>code =
             [''// Hover over '' @ v_element validatedParams,
              ''await page.'' @ generated @ ''.hover();''],
           action = Some (Hover locator),
           captureSnapshot = True,
           waitForNetwork = True\<rparr> \<and>
        context' = context)"
  unfolding hover_handle_def pair_with_context bind_result_eq_Inr by blast

lemma type_handle_Inr_iff:
  "type_handle env context params = (Inr result, context') \<longleftrightarrow>
     (\<exists>validatedParams tab snapshot locator generated.
        typeSchema_parse params = Inr validatedParams \<and>
        currentTabOrDie context = Inr tab \<and>
        Tab_snapshotOrDie tab = Inr snapshot \<and>
        refLocator snapshot (v_ref validatedParams) = Inr locator \<and>
        generateLocator env (tab_page tab) locator = Inr generated \<and>
        result =
          \<lparr>code =
             (if truthy_boolean (v_slowly validatedParams)
              then [''// Press \"'' @ v_text validatedParams @ ''\" sequentially into \"'' @
                      v_element validatedParams @ ''\"'',
                    ''await page.'' @ generated @ ''.pressSequentially('' @
                      quote env (v_text validatedParams) @ '');'']
              else [''// Fill \"'' @ v_text validatedParams @ ''\" into \"'' @
                      v_element validatedParams @ ''\"'',
                    ''await page.'' @ generated @ ''.fill('' @
                      quote env (v_text validatedParams) @ '');'']) @
             (if truthy_boolean (v_submit validatedParams)
              then [''// Submit text'',
                    ''await page.'' @ generated @ ''.press('' @ [CHR 0x27] @ ''Enter'' @
                      [CHR 0x27] @ '');'']
              else []),
           action =
             Some (Steps
               ((if truthy_boolean (v_slowly validatedParams)
                 then [PressSequentially locator (v_text validatedParams)]
                 else [Fill locator (v_text validatedParams)]) @
                (if truthy_boolean (v_submit validatedParams)
                 then [Press locator ''Enter'']
                 else []))),
           captureSnapshot = True,
           waitForNetwork = True\<rparr> \<and>
        context' = context)"
  unfolding type_handle_def pair_with_context bind_result_eq_Inr Let_def
  by (auto simp add: bind_result_eq_Inr)

lemma selectOption_handle_Inr_iff:
  "selectOption_handle env context params = (Inr result, context') \<longleftrightarrow>
     (\<exists>validatedParams tab snapshot locator generated.
        selectOptionSchema_parse params = Inr validatedParams \<and>
        currentTabOrDie context = Inr tab \<and>
        Tab_snapshotOrDie tab = Inr snapshot \<and>
        refLocator snapshot (v_ref validatedParams) = Inr locator \<and>
        generateLocator env (tab_page tab) locator = Inr generated \<and>
        result =
          \<lparr>code =
             [''// Select options ['' @ join '', '' (v_values validatedParams) @ ''] in '' @
                v_element validatedParams,
              ''await page.'' @ generated @ ''.selectOption('' @
                formatObject env (JArray (map JString (v_values validatedParams))) @ '');''],
           action = Some (SelectOption locator (v_values validatedParams)),
           captureSnapshot = True,
           waitForNetwork = True\<rparr> \<and>
        context' = context)"
  unfolding selectOption_handle_def pair_with_context bind_result_eq_Inr by blast

lemma selectRadio_handle_Inr_iff:
  "selectRadio_handle env context params = (Inr result, context') \<longleftrightarrow>
     (\<exists>validatedParams tab snapshot locator generated.
        selectRadioSchema_parse params = Inr validatedParams \<and>
        currentTabOrDie context = Inr tab \<and>
        Tab_snapshotOrDie tab = Inr snapshot \<and>
        refLocator snapshot (v_ref validatedParams) = Inr locator \<and>
        generateLocator env (tab_page tab) locator = Inr generated \<and>
        result =
          \<lparr>code =
             [''// Select radio button \"'' @ v_element validatedParams @
                ''\" with value \"'' @ v_value validatedParams @ ''\"'',
              ''await page.'' @ generated @ ''.check();''],
           action = Some (Check locator),
           captureSnapshot = True,
           waitForNetwork = True\<rparr> \<and>
        context' = context)"
  unfolding selectRadio_handle_def pair_with_context bind_result_eq_Inr by blast

lemma screenshot_handle_Inr_iff:
  "screenshot_handle env context params = (Inr result, context') \<longleftrightarrow>
     (\<exists>validatedParams tab snapshot fileType fileName options.
        screenshotSchema_parse params = Inr validatedParams \<and>
        currentTabOrDie context = Inr tab \<and>
        Tab_snapshotOrDie tab = Inr snapshot \<and>
        fileType = (if truthy_boolean (s_raw validatedParams) then ''png'' else ''jpeg'') \<and>
        fileName =
          path_join env (tmpdir env)
            (sanitizeForFilePath env (''page-'' @ toISOString env)) @ ''.'' @ fileType \<and>
        options =
          JObject [(''type'', JString fileType),
                   (''quality'', if fileType = ''png'' then JUndefined else JNumber 50),
                   (''scale'', JString ''css''),
                   (''path'', JString fileName)] \<and>
        (if truthy_string (s_ref validatedParams)
         then \<exists>locator generated.
                refLocator snapshot
                  (case s_ref validatedParams of Some r \<Rightarrow> r | None \<Rightarrow> []) = Inr locator \<and>
                generateLocator env (tab_page tab) locator = Inr generated \<and>
                result =
                  \<lparr>code =
                     [''// Screenshot '' @
                        (if truthy_string (s_element validatedParams)
                         then (case s_element validatedParams of Some e \<Rightarrow> e | None \<Rightarrow> [])
                         else ''viewport'') @
                        '' and save it as '' @ fileName,
                      ''await page.'' @ generated @ ''.screenshot('' @
                        formatObject env options @ '');''],
                   action = Some (TakeScreenshot (Some locator) options fileType),
                   captureSnapshot = True,
                   waitForNetwork = False\<rparr>
         else result =
                \<lparr>code =
                   [''// Screenshot viewport and save it as '' @ fileName,
                    ''await page.screenshot('' @ formatObject env options @ '');''],
                 action = Some (TakeScreenshot None options fileType),
                 captureSnapshot = True,
                 waitForNetwork = False\<rparr>) \<and>
        context' = context)"
  unfolding screenshot_handle_def pair_with_context bind_result_eq_Inr Let_def
  by (cases "screenshotSchema_parse params")
     (auto simp add: bind_result_eq_Inr cong: if_cong)

lemma click_handle_resolution_fails:
  assumes "elementSchema_parse params = Inr validatedParams"
    and "currentTab context = Some tab"
    and "tab_snapshot tab = Some snapshot"
    and "handleStaleRef (tab_page tab) (v_ref validatedParams) = (Inr ref, page')"
    and "refLocator snapshot ref = Inl err"
  shows "click_handle env context params =
           (Inl err, context\<lparr>currentTab := Some (tab\<lparr>tab_page := page'\<rparr>)\<rparr>)"
  using assms
  by (simp add: click_handle_def currentTabOrDie_def Tab_snapshotOrDie_def)

text \<open>The exported list of tools.\<close>

lemma snapshot_tools_cases:
  "tool \<in> set snapshot_tools \<Longrightarrow>
     tool = snapshot_tool \<or> tool = click_tool \<or> tool = drag_tool \<or> tool = hover_tool \<or>
     tool = type_tool \<or> tool = selectOption_tool \<or> tool = selectRadio_tool \<or>
     tool = screenshot_tool"
  by (simp add: snapshot_tools_def)

lemma tool_handles:
  "handle snapshot_tool = snapshot_handle" "handle click_tool = click_handle"
  "handle drag_tool = drag_handle" "handle hover_tool = hover_handle"
  "handle type_tool = type_handle" "handle selectOption_tool = selectOption_handle"
  "handle selectRadio_tool = selectRadio_handle" "handle screenshot_tool = screenshot_handle"
  by (simp_all add: snapshot_tool_def click_tool_def drag_tool_def hover_tool_def
      type_tool_def selectOption_tool_def selectRadio_tool_def screenshot_tool_def)

lemma tool_names:
  "schema_name snapshot_tool = ''browser_snapshot''"
  "schema_name click_tool = ''browser_click''"
  "schema_name drag_tool = ''browser_drag''"
  "schema_name hover_tool = ''browser_hover''"
  "schema_name type_tool = ''browser_type''"
  "schema_name selectOption_tool = ''browser_select_option''"
  "schema_name selectRadio_tool = ''browser_select_radio''"
  "schema_name screenshot_tool = ''browser_take_screenshot''"
  by (simp_all add: snapshot_tool_def click_tool_def drag_tool_def hover_tool_def
      type_tool_def selectOption_tool_def selectRadio_tool_def screenshot_tool_def)

lemma find_click_tool:
  "find (\<lambda>tool. schema_name tool = ''browser_click'') snapshot_tools = Some click_tool"
  by (simp add: snapshot_tools_def snapshot_tool_def click_tool_def)

lemma find_no_tool:
  "find (\<lambda>tool. schema_name tool = ''browser_teleport'') snapshot_tools = None"
  by (simp add: snapshot_tools_def snapshot_tool_def click_tool_def drag_tool_def
      hover_tool_def type_tool_def selectOption_tool_def selectRadio_tool_def
      screenshot_tool_def)

lemma click_tool_undeclared: "clearsModalState click_tool = None"
  by (simp add: click_tool_def)

section \<open>Dispatcher: basic facts\<close>

lemma gate_rejects_declared:
  "clearsModalState tool = Some T \<Longrightarrow>
     gate_rejects tool context \<longleftrightarrow> T \<notin> state_type ` set (modalStates context)"
  by (simp add: gate_rejects_def)

lemma gate_rejects_undeclared:
  "clearsModalState tool = None \<Longrightarrow>
     gate_rejects tool context \<longleftrightarrow> modalStates context \<noteq> []"
  by (simp add: gate_rejects_def)

lemma rejection_is_not_a_run:
  "\<exists>run. modal_state_rejection display context request \<noteq> try_run run tool context request"
proof
  show "modal_state_rejection display context request \<noteq>
      try_run (\<lambda>tool arguments context. (Inr \<lparr>content = [], isError = False\<rparr>, context))
        tool context request"
    by (simp add: modal_state_rejection_def try_run_def createErrorResponse_def Let_def)
qed

lemma admitted_iff:
  "(\<forall>run. handleToolExecution run display tool context request =
           try_run run tool context request) \<longleftrightarrow> \<not> gate_rejects tool context"
  using rejection_is_not_a_run [of display "context" request tool]
  by (auto simp add: handleToolExecution_def)


text \<open>
  \<open>Context_run\<close> passes on what the handler throws and what the deferred operation
  throws, so that \<^verbatim>\<open>handleToolExecution\<close> sees both as a rejection of \<^verbatim>\<open>context.run\<close>.
\<close>

lemma Context_run_handler_throws:
  "handle tool env context params = (Inl err, context') \<Longrightarrow>
     Context_run env tool params context = (Inl err, context')"
  by (simp add: Context_run_def)

lemma Context_run_action_throws:
  "handle tool env context params = (Inr result, context1) \<Longrightarrow>
   currentTab context1 = Some tab \<Longrightarrow>
   action result = Some deferred \<Longrightarrow>
   perform env deferred (tab_page tab) = (Inl err, page') \<Longrightarrow>
     Context_run env tool params context =
       (Inl err, context1\<lparr>currentTab := Some (tab\<lparr>tab_page := page'\<rparr>)\<rparr>)"
  by (simp add: Context_run_def currentTabOrDie_def)

lemma Context_run_click_invalid:
  "Context_run scenario_env click_tool JUndefined context =
     (Inl (InvalidArgumentsError [NotAnObject]), context)"
  by (simp add: Context_run_def click_tool_def click_handle_def elementSchema_parse_def)

lemma scenario_dialog_rejects: "gate_rejects click_tool scenario_dialog"
  by (simp add: gate_rejects_def click_tool_def scenario_dialog_def)

lemma scenario_context_admits: "\<not> gate_rejects click_tool scenario_context"
  by (simp add: gate_rejects_def click_tool_def scenario_context_def)

section \<open>The claims about the stale-reference resolver\<close>

text \<open>
  Claim C2. For every reference \<^verbatim>\<open>s<g>e<i>\<close> handed to the resolver while it is stale (its
  generation differs from that of the page's current snapshot), the resolver recaptures: the
  page is left one generation further, and the snapshot searched is the new one, of that
  generation. The expected prefix is \<^verbatim>\<open>s<g+1>e\<close>. The text of the new snapshot is searched for
  \<^verbatim>\<open>ref=\<close>, that prefix and digits, and the first match, when there is one, is returned in
  place of the reference; the reference itself is returned when there is none. The capture
  is made through the Tab the resolver builds on the page. That \<open>match_ref\<close> is the first
  match, and that a match is the prefix with the digits after it, is
  \<open>match_ref_Some_iff\<close> with \<open>ref_here_Some_iff\<close>.
\<close>

theorem stale_reference_recaptured_and_remapped:
  assumes "g < MAX_SAFE_INTEGER" and "g \<noteq> page_generation page"
  shows "handleStaleRef page (reference g i) =
           (Inr (case match_ref (''s'' @ String_nat (g + 1) @ ''e'')
                        (snapshot_text (capture page)) of
                   None \<Rightarrow> reference g i
                 | Some newRef \<Rightarrow> newRef),
            page\<lparr>page_generation := page_generation page + 1\<rparr>) \<and>
         snapshot_generation (capture page) = page_generation page + 1"
  using startsWith_reference [of g i]
  by (simp add: handleStaleRef_eq ref_generation_reference capture_def)

theorem stale_reference_recaptured_and_remapped_witness:
  "(2::nat) < MAX_SAFE_INTEGER \<and> 2 \<noteq> page_generation scenario_page \<and>
   handleStaleRef scenario_page (reference 2 12) =
     (Inr ''s2e12'', scenario_page\<lparr>page_generation := 4\<rparr>) \<and>
   snapshot_generation (capture scenario_page) = 4 \<and>
   handleStaleRef (scenario_page\<lparr>page_nodes := [''link to [ref=s3e7]'']\<rparr>) (reference 2 12) =
     (Inr ''s3e7'',
      scenario_page\<lparr>page_generation := 4, page_nodes := [''link to [ref=s3e7]'']\<rparr>)"
proof -
  have bound: "(2::nat) < MAX_SAFE_INTEGER"
    by (simp add: MAX_SAFE_INTEGER_def)
  have stale: "2 \<noteq> page_generation scenario_page"
    by (simp add: scenario_page_def)
  have stale': "2 \<noteq> page_generation (scenario_page\<lparr>page_nodes := [''link to [ref=s3e7]'']\<rparr>)"
    by (simp add: scenario_page_def)
  have search: "match_ref (''s'' @ String_nat (2 + 1) @ ''e'')
      (snapshot_text (capture scenario_page)) = None"
    by code_simp
  have search': "match_ref (''s'' @ String_nat (2 + 1) @ ''e'')
      (snapshot_text (capture (scenario_page\<lparr>page_nodes := [''link to [ref=s3e7]'']\<rparr>))) =
      Some ''s3e7''"
    by code_simp
  have ref: "reference 2 12 = ''s2e12''"
    by code_simp
  have gen: "page_generation scenario_page = 3"
    by (simp add: scenario_page_def)
  have unmatched: "handleStaleRef scenario_page (reference 2 12) =
      (Inr ''s2e12'', scenario_page\<lparr>page_generation := 4\<rparr>) \<and>
    snapshot_generation (capture scenario_page) = 4"
    using stale_reference_recaptured_and_remapped [OF bound stale, of 12]
    unfolding search ref
    by (simp add: gen)
  have matched: "handleStaleRef (scenario_page\<lparr>page_nodes := [''link to [ref=s3e7]'']\<rparr>)
      (reference 2 12) =
     (Inr ''s3e7'',
      scenario_page\<lparr>page_generation := 4, page_nodes := [''link to [ref=s3e7]'']\<rparr>)"
    using stale_reference_recaptured_and_remapped [OF bound stale', of 12]
    unfolding search' ref
    by (simp add: gen)
  from bound stale unmatched matched show ?thesis
    by blast
qed

text \<open>
  Claim C10. Every call of the resolver captures, whatever the reference: the page is left
  one generation further and the resolver does not throw. In particular a reference of the
  current generation triggers the capture too, and a reference with no \<^verbatim>\<open>s<digits>e\<close> in it
  is returned unchanged after the capture.
\<close>

theorem resolver_always_recaptures:
  "snd (handleStaleRef page ref) = page\<lparr>page_generation := page_generation page + 1\<rparr> \<and>
   (\<exists>returned. fst (handleStaleRef page ref) = Inr returned) \<and>
   snd (handleStaleRef page (reference (page_generation page) i)) =
     page\<lparr>page_generation := page_generation page + 1\<rparr> \<and>
   (\<not> (\<exists>before ds rest. ref = before @ ''s'' @ ds @ ''e'' @ rest \<and> ds \<noteq> [] \<and>
         (\<forall>c \<in> set ds. is_digit c)) \<longrightarrow>
      handleStaleRef page ref = (Inr ref, page\<lparr>page_generation := page_generation page + 1\<rparr>))"
  using handleStaleRef_unmatched_generation [of ref page]
  unfolding match_generation_None_iff
  by (auto simp add: handleStaleRef_eq)

theorem resolver_always_recaptures_witness:
  "snd (handleStaleRef scenario_page ''s3e12'') = scenario_page\<lparr>page_generation := 4\<rparr> \<and>
   \<not> (\<exists>before ds rest. ''hello'' = before @ ''s'' @ ds @ ''e'' @ rest \<and> ds \<noteq> [] \<and>
         (\<forall>c \<in> set ds. is_digit c)) \<and>
   handleStaleRef scenario_page ''hello'' = (Inr ''hello'', scenario_page\<lparr>page_generation := 4\<rparr>)"
proof -
  have "match_generation ''hello'' = None"
    by code_simp
  then have malformed: "\<not> (\<exists>before ds rest. ''hello'' = before @ ''s'' @ ds @ ''e'' @ rest \<and>
      ds \<noteq> [] \<and> (\<forall>c \<in> set ds. is_digit c))"
    unfolding match_generation_None_iff .
  have gen: "page_generation scenario_page = 3"
    by (simp add: scenario_page_def)
  from resolver_always_recaptures [of scenario_page "''s3e12''" 12]
  have first: "snd (handleStaleRef scenario_page ''s3e12'') =
      scenario_page\<lparr>page_generation := 4\<rparr>"
    by (simp add: gen)
  from resolver_always_recaptures [of scenario_page "''hello''" 12] malformed
  have second: "handleStaleRef scenario_page ''hello'' =
      (Inr ''hello'', scenario_page\<lparr>page_generation := 4\<rparr>)"
    by (simp add: gen)
  from first malformed second show ?thesis
    by blast
qed

text \<open>
  Claim C5. When the search finds no reference with the expected prefix in the text of the
  new snapshot, the resolver returns the reference it was given, verbatim. A click then
  resolves that very reference: if no node of the Tab's snapshot carries it, the call fails
  with the stale-or-unknown-reference error for it, and no other element is acted on.
\<close>

theorem unmatched_reference_returned_verbatim:
  assumes "ref_generation ref < MAX_SAFE_INTEGER"
    and "match_ref (''s'' @ String_nat (ref_generation ref + 1) @ ''e'')
           (snapshot_text (capture page)) = None"
  shows "handleStaleRef page ref =
           (Inr ref, page\<lparr>page_generation := page_generation page + 1\<rparr>) \<and>
         (elementSchema_parse params = Inr validatedParams \<and>
          v_ref validatedParams = ref \<and>
          currentTab context = Some tab \<and> tab_page tab = page \<and>
          tab_snapshot tab = Some snapshot \<and>
          map_of (snapshot_nodes snapshot) ref = None \<longrightarrow>
          fst (click_handle env context params) = Inl (StaleOrUnknownReferenceError ref))"
proof -
  have verbatim: "handleStaleRef page ref =
      (Inr ref, page\<lparr>page_generation := page_generation page + 1\<rparr>)"
    using assms(2) unfolding handleStaleRef_eq by simp
  show ?thesis
  proof (intro conjI impI)
    show "handleStaleRef page ref =
        (Inr ref, page\<lparr>page_generation := page_generation page + 1\<rparr>)"
      by (rule verbatim)
  next
    assume call: "elementSchema_parse params = Inr validatedParams \<and>
      v_ref validatedParams = ref \<and>
      currentTab context = Some tab \<and> tab_page tab = page \<and>
      tab_snapshot tab = Some snapshot \<and>
      map_of (snapshot_nodes snapshot) ref = None"
    then have unknown: "refLocator snapshot ref = Inl (StaleOrUnknownReferenceError ref)"
      by (simp add: refLocator_def)
    from call verbatim have
      "handleStaleRef (tab_page tab) (v_ref validatedParams) =
         (Inr ref, page\<lparr>page_generation := page_generation page + 1\<rparr>)"
      by simp
    with call unknown show
      "fst (click_handle env context params) = Inl (StaleOrUnknownReferenceError ref)"
      by (simp add: click_handle_resolution_fails)
  qed
qed

theorem unmatched_reference_returned_verbatim_witness:
  "ref_generation ''s2e12'' < MAX_SAFE_INTEGER \<and>
   match_ref (''s'' @ String_nat (ref_generation ''s2e12'' + 1) @ ''e'')
     (snapshot_text (capture scenario_page)) = None \<and>
   handleStaleRef scenario_page ''s2e12'' =
     (Inr ''s2e12'', scenario_page\<lparr>page_generation := 4\<rparr>) \<and>
   fst (click_handle scenario_env scenario_context (element_arguments ''button 12'' ''s2e12'')) =
     Inl (StaleOrUnknownReferenceError ''s2e12'')"
proof -
  have g: "ref_generation ''s2e12'' = 2"
    by code_simp
  have bound: "ref_generation ''s2e12'' < MAX_SAFE_INTEGER"
    by (simp add: g MAX_SAFE_INTEGER_def)
  have search: "match_ref (''s'' @ String_nat (ref_generation ''s2e12'' + 1) @ ''e'')
      (snapshot_text (capture scenario_page)) = None"
    by code_simp
  have parsed: "elementSchema_parse (element_arguments ''button 12'' ''s2e12'') =
      Inr \<lparr>v_element = ''button 12'', v_ref = ''s2e12''\<rparr>"
    by code_simp
  have tab: "currentTab scenario_context = Some scenario_tab"
    by (simp add: scenario_context_def)
  have page: "tab_page scenario_tab = scenario_page"
    by (simp add: scenario_tab_def Tab_captureSnapshot_def scenario_page_def)
  have snapshot: "tab_snapshot scenario_tab =
      Some (capture (scenario_page\<lparr>page_generation := 2\<rparr>))"
    by (simp add: scenario_tab_def Tab_captureSnapshot_def)
  have unknown: "map_of (snapshot_nodes (capture (scenario_page\<lparr>page_generation := 2\<rparr>)))
      ''s2e12'' = None"
    by code_simp
  have gen: "page_generation scenario_page = 3"
    by (simp add: scenario_page_def)
  show ?thesis
    using unmatched_reference_returned_verbatim [OF bound search,
        of "element_arguments ''button 12'' ''s2e12''"
           "\<lparr>v_element = ''button 12'', v_ref = ''s2e12''\<rparr>"
           scenario_context scenario_tab
           "capture (scenario_page\<lparr>page_generation := 2\<rparr>)" scenario_env]
      bound search
    by (simp add: parsed tab page snapshot unknown gen)
qed

text \<open>
  Claim C3, at scenario 4 of the spec: the reference \<^verbatim>\<open>s3e12\<close> is supplied to a click while
  the current snapshot has generation 3 and carries it. The claim has it resolved directly,
  with no capture and no substitution. The resolver captures (the page goes to generation 4)
  and returns \<^verbatim>\<open>s4e1\<close>, the first reference of the new snapshot, in its place; the click
  then resolves \<^verbatim>\<open>s4e1\<close> against the Tab's snapshot and fails, although that snapshot
  carries the reference that was supplied.
\<close>

theorem current_reference_is_replaced:
  "reference 3 12 = ''s3e12'' \<and>
   tab_page scenario_tab = scenario_page \<and>
   page_generation scenario_page = 3 \<and>
   tab_snapshot scenario_tab = Some (capture (scenario_page\<lparr>page_generation := 2\<rparr>)) \<and>
   snapshot_generation (capture (scenario_page\<lparr>page_generation := 2\<rparr>)) = 3 \<and>
   refLocator (capture (scenario_page\<lparr>page_generation := 2\<rparr>)) ''s3e12'' =
     Inr (Locator ''s3e12'' ''button 12'') \<and>
   handleStaleRef scenario_page ''s3e12'' =
     (Inr ''s4e1'', scenario_page\<lparr>page_generation := 4\<rparr>) \<and>
   click_handle scenario_env scenario_context (element_arguments ''button 12'' ''s3e12'') =
     (Inl (StaleOrUnknownReferenceError ''s4e1''),
      scenario_context\<lparr>currentTab :=
        Some (scenario_tab\<lparr>tab_page := scenario_page\<lparr>page_generation := 4\<rparr>\<rparr>)\<rparr>)"
  by code_simp

text \<open>
  Claim C4, at a hover with the stale reference \<^verbatim>\<open>s2e12\<close> while the current snapshot has
  generation 3. The claim has the resolver applied by every tool that carries a reference.
  Only the click applies it: the hover resolves the reference as supplied and leaves the
  session as it was (nothing is captured), where the click on the same arguments captures.
  The handlers of drag, type, select-option, select-radio and screenshot leave the session
  as it was for all arguments, like the hover.
\<close>

theorem hover_resolves_without_the_resolver:
  "hover_handle scenario_env scenario_context (element_arguments ''button 12'' ''s2e12'') =
     (Inl (StaleOrUnknownReferenceError ''s2e12''), scenario_context) \<and>
   click_handle scenario_env scenario_context (element_arguments ''button 12'' ''s2e12'') =
     (Inl (StaleOrUnknownReferenceError ''s2e12''),
      scenario_context\<lparr>currentTab :=
        Some (scenario_tab\<lparr>tab_page := scenario_page\<lparr>page_generation := 4\<rparr>\<rparr>)\<rparr>) \<and>
   snd (hover_handle env context params) = context \<and>
   snd (drag_handle env context params) = context \<and>
   snd (type_handle env context params) = context \<and>
   snd (selectOption_handle env context params) = context \<and>
   snd (selectRadio_handle env context params) = context \<and>
   snd (screenshot_handle env context params) = context"
proof -
  have hover: "hover_handle scenario_env scenario_context
      (element_arguments ''button 12'' ''s2e12'') =
     (Inl (StaleOrUnknownReferenceError ''s2e12''), scenario_context)"
    by code_simp
  have click: "click_handle scenario_env scenario_context
      (element_arguments ''button 12'' ''s2e12'') =
     (Inl (StaleOrUnknownReferenceError ''s2e12''),
      scenario_context\<lparr>currentTab :=
        Some (scenario_tab\<lparr>tab_page := scenario_page\<lparr>page_generation := 4\<rparr>\<rparr>)\<rparr>)"
    by code_simp
  show ?thesis
    unfolding hover click
    by (simp add: hover_handle_def drag_handle_def type_handle_def selectOption_handle_def
        selectRadio_handle_def screenshot_handle_def)
qed

section \<open>The claims about the modal-state gate\<close>

text \<open>
  Claim C1. A call is admitted when \<^verbatim>\<open>handleToolExecution\<close> hands it to \<^verbatim>\<open>context.run\<close>,
  whatever \<^verbatim>\<open>context.run\<close> is. A tool that declares \<^verbatim>\<open>clearsModalState = T\<close> is admitted if
  and only if \<open>T\<close> is the type of an active modal state; a tool that declares nothing is
  admitted if and only if no modal state is active; and a call that is not admitted gets the
  rejection, which does not depend on \<^verbatim>\<open>context.run\<close>: the handler has not run.
\<close>

theorem gate_admits_iff:
  "(clearsModalState tool = Some T \<longrightarrow>
      ((\<forall>run. handleToolExecution run display tool context request =
               try_run run tool context request) \<longleftrightarrow>
       T \<in> state_type ` set (modalStates context))) \<and>
   (clearsModalState tool = None \<longrightarrow>
      ((\<forall>run. handleToolExecution run display tool context request =
               try_run run tool context request) \<longleftrightarrow>
       modalStates context = [])) \<and>
   ((\<exists>run. handleToolExecution run display tool context request \<noteq>
            try_run run tool context request) \<longrightarrow>
      (\<forall>run. handleToolExecution run display tool context request =
             modal_state_rejection display context request))"
proof (intro conjI impI)
  assume "clearsModalState tool = Some T"
  then show "(\<forall>run. handleToolExecution run display tool context request =
               try_run run tool context request) \<longleftrightarrow>
       T \<in> state_type ` set (modalStates context)"
    unfolding admitted_iff by (simp add: gate_rejects_declared)
next
  assume "clearsModalState tool = None"
  then show "(\<forall>run. handleToolExecution run display tool context request =
               try_run run tool context request) \<longleftrightarrow>
       modalStates context = []"
    unfolding admitted_iff by (simp add: gate_rejects_undeclared)
next
  assume "\<exists>run. handleToolExecution run display tool context request \<noteq>
            try_run run tool context request"
  then have "gate_rejects tool context"
    using admitted_iff [of display tool "context" request] by blast
  then show "\<forall>run. handleToolExecution run display tool context request =
             modal_state_rejection display context request"
    by (simp add: handleToolExecution_def)
qed

theorem gate_admits_iff_witness:
  "clearsModalState dialog_tool = Some ''dialog'' \<and>
   ''dialog'' \<in> state_type ` set (modalStates scenario_dialog) \<and>
   (\<forall>run. handleToolExecution run description dialog_tool scenario_dialog
            \<lparr>params_name = ''browser_handle_dialog'', params_arguments = JObject []\<rparr> =
          try_run run dialog_tool scenario_dialog
            \<lparr>params_name = ''browser_handle_dialog'', params_arguments = JObject []\<rparr>) \<and>
   clearsModalState (click_tool :: string tool) = None \<and>
   modalStates scenario_dialog \<noteq> [] \<and>
   (\<forall>run. handleToolExecution run description click_tool scenario_dialog
            \<lparr>params_name = ''browser_click'', params_arguments = JObject []\<rparr> =
          modal_state_rejection description scenario_dialog
            \<lparr>params_name = ''browser_click'', params_arguments = JObject []\<rparr>)"
proof -
  have declared: "clearsModalState dialog_tool = Some ''dialog''"
    by (simp add: dialog_tool_def)
  have active: "''dialog'' \<in> state_type ` set (modalStates scenario_dialog)"
    by (simp add: scenario_dialog_def)
  have undeclared: "clearsModalState (click_tool :: string tool) = None"
    by (rule click_tool_undeclared)
  have nonempty: "modalStates scenario_dialog \<noteq> []"
    by (simp add: scenario_dialog_def)
  have admitted: "\<forall>run. handleToolExecution run description dialog_tool scenario_dialog
            \<lparr>params_name = ''browser_handle_dialog'', params_arguments = JObject []\<rparr> =
          try_run run dialog_tool scenario_dialog
            \<lparr>params_name = ''browser_handle_dialog'', params_arguments = JObject []\<rparr>"
    using gate_admits_iff [of dialog_tool "''dialog''" description scenario_dialog
        "\<lparr>params_name = ''browser_handle_dialog'', params_arguments = JObject []\<rparr>"]
      declared active
    by blast
  have rejected: "\<forall>run. handleToolExecution run description click_tool scenario_dialog
            \<lparr>params_name = ''browser_click'', params_arguments = JObject []\<rparr> =
          modal_state_rejection description scenario_dialog
            \<lparr>params_name = ''browser_click'', params_arguments = JObject []\<rparr>"
    using gate_admits_iff [of click_tool "''dialog''" description scenario_dialog
        "\<lparr>params_name = ''browser_click'', params_arguments = JObject []\<rparr>"]
      undeclared nonempty
    by blast
  from declared active admitted undeclared nonempty rejected show ?thesis
    by blast
qed



section \<open>The claims about the dispatcher and the handlers\<close>

text \<open>
  Claim C6. The handler of a tool call always resolves to a response, whatever
  \<^verbatim>\<open>context.run\<close> does. An unknown tool name, a rejection by the gate and a rejection of
  \<^verbatim>\<open>context.run\<close> (which is how invalid arguments, an exception during planning and an
  exception of the deferred operation reach the dispatcher) each give an error response, and
  an error response is one text item with \<^verbatim>\<open>isError\<close> set.
\<close>

theorem failures_become_error_responses:
  "(\<exists>response context'.
      callTool run display tools context request = (Inr response, context')) \<and>
   (find (\<lambda>tool. schema_name tool = params_name request) tools = None \<longrightarrow>
      callTool run display tools context request =
        (Inr (createErrorResponse
                (Text (''Tool \"'' @ params_name request @ ''\" not found''))),
         context)) \<and>
   (find (\<lambda>tool. schema_name tool = params_name request) tools = Some tool \<and>
    gate_rejects tool context \<longrightarrow>
      (\<exists>text. callTool run display tools context request =
         (Inr (createErrorResponse (Text text)), context))) \<and>
   (find (\<lambda>tool. schema_name tool = params_name request) tools = Some tool \<and>
    \<not> gate_rejects tool context \<and>
    run tool (params_arguments request) context = (Inl error, context') \<longrightarrow>
      callTool run display tools context request =
        (Inr (createErrorResponse (StringOf error)), context')) \<and>
   createErrorResponse message = \<lparr>content = [TextContent message], isError = True\<rparr>"
proof (intro conjI impI)
  show "\<exists>response context'.
      callTool run display tools context request = (Inr response, context')"
    by (auto simp add: callTool_def handleToolExecution_def modal_state_rejection_def
        try_run_def Let_def split: option.split prod.split sum.split)
next
  assume "find (\<lambda>tool. schema_name tool = params_name request) tools = None"
  then show "callTool run display tools context request =
        (Inr (createErrorResponse
                (Text (''Tool \"'' @ params_name request @ ''\" not found''))),
         context)"
    by (simp add: callTool_def)
next
  assume "find (\<lambda>tool. schema_name tool = params_name request) tools = Some tool \<and>
    gate_rejects tool context"
  then show "\<exists>text. callTool run display tools context request =
         (Inr (createErrorResponse (Text text)), context)"
    by (auto simp add: callTool_def handleToolExecution_def modal_state_rejection_def Let_def)
next
  assume "find (\<lambda>tool. schema_name tool = params_name request) tools = Some tool \<and>
    \<not> gate_rejects tool context \<and>
    run tool (params_arguments request) context = (Inl error, context')"
  then show "callTool run display tools context request =
        (Inr (createErrorResponse (StringOf error)), context')"
    by (simp add: callTool_def handleToolExecution_def try_run_def)
next
  show "createErrorResponse message = \<lparr>content = [TextContent message], isError = True\<rparr>"
    by (simp add: createErrorResponse_def)
qed

theorem failures_become_error_responses_witness:
  "find (\<lambda>tool. schema_name tool = ''browser_teleport'') (snapshot_tools :: string tool list) =
     None \<and>
   callTool (Context_run scenario_env) description snapshot_tools scenario_context
       \<lparr>params_name = ''browser_teleport'', params_arguments = JObject []\<rparr> =
     (Inr (createErrorResponse (Text ''Tool \"browser_teleport\" not found'')),
      scenario_context) \<and>
   find (\<lambda>tool. schema_name tool = ''browser_click'') snapshot_tools = Some click_tool \<and>
   gate_rejects click_tool scenario_dialog \<and>
   (\<exists>text. callTool (Context_run scenario_env) description snapshot_tools scenario_dialog
       \<lparr>params_name = ''browser_click'', params_arguments = JUndefined\<rparr> =
     (Inr (createErrorResponse (Text text)), scenario_dialog)) \<and>
   \<not> gate_rejects click_tool scenario_context \<and>
   Context_run scenario_env click_tool JUndefined scenario_context =
     (Inl (InvalidArgumentsError [NotAnObject]), scenario_context) \<and>
   callTool (Context_run scenario_env) description snapshot_tools scenario_context
       \<lparr>params_name = ''browser_click'', params_arguments = JUndefined\<rparr> =
     (Inr (createErrorResponse (StringOf (InvalidArgumentsError [NotAnObject]))),
      scenario_context)"
proof -
  note unknown = failures_become_error_responses [of "Context_run scenario_env" description
      snapshot_tools scenario_context
      "\<lparr>params_name = ''browser_teleport'', params_arguments = JObject []\<rparr>"]
  note rejected = failures_become_error_responses [of "Context_run scenario_env" description
      snapshot_tools scenario_dialog
      "\<lparr>params_name = ''browser_click'', params_arguments = JUndefined\<rparr>" click_tool]
  note thrown = failures_become_error_responses [of "Context_run scenario_env" description
      snapshot_tools scenario_context
      "\<lparr>params_name = ''browser_click'', params_arguments = JUndefined\<rparr>" click_tool
      "InvalidArgumentsError [NotAnObject]" scenario_context]
  show ?thesis
    using unknown rejected thrown
    by (simp add: find_no_tool find_click_tool scenario_dialog_rejects
        scenario_context_admits Context_run_click_invalid)
qed

text \<open>
  Claim C8, as amended. The gate comes before the handler: a call the gate rejects gets the
  gate's rejection whatever its arguments are, and a call the gate admits gets the error
  response for what \<^verbatim>\<open>context.run\<close> throws. Validation is the first step of the handlers of
  \<^verbatim>\<open>browser_click\<close>, \<^verbatim>\<open>browser_drag\<close>, \<^verbatim>\<open>browser_hover\<close>, \<^verbatim>\<open>browser_type\<close>,
  \<^verbatim>\<open>browser_select_option\<close>, \<^verbatim>\<open>browser_select_radio\<close> and \<^verbatim>\<open>browser_take_screenshot\<close>: when
  the arguments violate the schema the handler throws the invalid-arguments error and leaves
  the session as it was, whatever the driver is. The handler of \<^verbatim>\<open>browser_snapshot\<close> validates
  nothing: it does not read the arguments, and does the same whatever they are.
\<close>

theorem validation_precedes_planning_after_the_gate:
  "(elementSchema_parse params = Inl err \<longrightarrow>
      (\<exists>issues. err = InvalidArgumentsError issues) \<and>
      click_handle env context params = (Inl err, context) \<and>
      hover_handle env context params = (Inl err, context)) \<and>
   (dragSchema_parse params = Inl err \<longrightarrow>
      (\<exists>issues. err = InvalidArgumentsError issues) \<and>
      drag_handle env context params = (Inl err, context)) \<and>
   (typeSchema_parse params = Inl err \<longrightarrow>
      (\<exists>issues. err = InvalidArgumentsError issues) \<and>
      type_handle env context params = (Inl err, context)) \<and>
   (selectOptionSchema_parse params = Inl err \<longrightarrow>
      (\<exists>issues. err = InvalidArgumentsError issues) \<and>
      selectOption_handle env context params = (Inl err, context)) \<and>
   (selectRadioSchema_parse params = Inl err \<longrightarrow>
      (\<exists>issues. err = InvalidArgumentsError issues) \<and>
      selectRadio_handle env context params = (Inl err, context)) \<and>
   (screenshotSchema_parse params = Inl err \<longrightarrow>
      (\<exists>issues. err = InvalidArgumentsError issues) \<and>
      screenshot_handle env context params = (Inl err, context)) \<and>
   (gate_rejects tool context \<longrightarrow>
      handleToolExecution run display tool context request =
        modal_state_rejection display context request) \<and>
   (\<not> gate_rejects tool context \<and>
    run tool (params_arguments request) context = (Inl err, context') \<longrightarrow>
      handleToolExecution run display tool context request =
        (Inr (createErrorResponse (StringOf err)), context')) \<and>
   snapshot_handle env context params = snapshot_handle env context arguments"
proof (intro conjI impI)
  show "snapshot_handle env context params = snapshot_handle env context arguments"
    by (simp add: snapshot_handle_def)
next
  assume "\<not> gate_rejects tool context \<and>
    run tool (params_arguments request) context = (Inl err, context')"
  then show "handleToolExecution run display tool context request =
        (Inr (createErrorResponse (StringOf err)), context')"
    by (simp add: handleToolExecution_def try_run_def)
qed (simp_all add: elementSchema_parse_error dragSchema_parse_error typeSchema_parse_error
    selectOptionSchema_parse_error selectRadioSchema_parse_error screenshotSchema_parse_error
    click_handle_invalid hover_handle_invalid drag_handle_invalid type_handle_invalid
    selectOption_handle_invalid selectRadio_handle_invalid screenshot_handle_invalid
    handleToolExecution_def)

theorem validation_precedes_planning_after_the_gate_witness:
  "elementSchema_parse JUndefined = Inl (InvalidArgumentsError [NotAnObject]) \<and>
   click_handle scenario_env scenario_context JUndefined =
     (Inl (InvalidArgumentsError [NotAnObject]), scenario_context) \<and>
   hover_handle scenario_env scenario_context JUndefined =
     (Inl (InvalidArgumentsError [NotAnObject]), scenario_context) \<and>
   dragSchema_parse JUndefined = Inl (InvalidArgumentsError [NotAnObject]) \<and>
   drag_handle scenario_env scenario_context JUndefined =
     (Inl (InvalidArgumentsError [NotAnObject]), scenario_context) \<and>
   typeSchema_parse JUndefined = Inl (InvalidArgumentsError [NotAnObject]) \<and>
   type_handle scenario_env scenario_context JUndefined =
     (Inl (InvalidArgumentsError [NotAnObject]), scenario_context) \<and>
   selectOptionSchema_parse JUndefined = Inl (InvalidArgumentsError [NotAnObject]) \<and>
   selectOption_handle scenario_env scenario_context JUndefined =
     (Inl (InvalidArgumentsError [NotAnObject]), scenario_context) \<and>
   selectRadioSchema_parse JUndefined = Inl (InvalidArgumentsError [NotAnObject]) \<and>
   selectRadio_handle scenario_env scenario_context JUndefined =
     (Inl (InvalidArgumentsError [NotAnObject]), scenario_context) \<and>
   screenshotSchema_parse JUndefined = Inl (InvalidArgumentsError [NotAnObject]) \<and>
   screenshot_handle scenario_env scenario_context JUndefined =
     (Inl (InvalidArgumentsError [NotAnObject]), scenario_context) \<and>
   gate_rejects click_tool scenario_dialog \<and>
   handleToolExecution (Context_run scenario_env) description click_tool scenario_dialog
       \<lparr>params_name = ''browser_click'', params_arguments = JUndefined\<rparr> =
     modal_state_rejection description scenario_dialog
       \<lparr>params_name = ''browser_click'', params_arguments = JUndefined\<rparr> \<and>
   \<not> gate_rejects click_tool scenario_context \<and>
   Context_run scenario_env click_tool JUndefined scenario_context =
     (Inl (InvalidArgumentsError [NotAnObject]), scenario_context) \<and>
   handleToolExecution (Context_run scenario_env) description click_tool scenario_context
       \<lparr>params_name = ''browser_click'', params_arguments = JUndefined\<rparr> =
     (Inr (createErrorResponse (StringOf (InvalidArgumentsError [NotAnObject]))),
      scenario_context) \<and>
   snapshot_handle scenario_env scenario_context JUndefined =
     snapshot_handle scenario_env scenario_context (JObject [])"
proof -
  note rejected = validation_precedes_planning_after_the_gate [of JUndefined
      "InvalidArgumentsError [NotAnObject]" scenario_env scenario_context click_tool
      "Context_run scenario_env" description
      "\<lparr>params_name = ''browser_click'', params_arguments = JUndefined\<rparr>" scenario_context
      "JObject []"]
  note admitted = validation_precedes_planning_after_the_gate [of JUndefined
      "InvalidArgumentsError [NotAnObject]" scenario_env scenario_dialog click_tool
      "Context_run scenario_env" description
      "\<lparr>params_name = ''browser_click'', params_arguments = JUndefined\<rparr>" scenario_dialog
      "JObject []"]
  show ?thesis
    using rejected admitted
    by (simp add: parse_undefined scenario_dialog_rejects scenario_context_admits
        Context_run_click_invalid)
qed

text \<open>
  Claim C8 as stated fails, in two ways. The gate is consulted before the arguments are
  validated: with a dialog open, a click with missing arguments is answered with the gate's
  rejection, which lists the dialog, and not with the invalid-arguments error; the same call
  with no modal state active is answered with the invalid-arguments error. And not every tool
  validates: missing arguments violate the schema \<^verbatim>\<open>browser_snapshot\<close> declares, yet its
  handler plans the capture, with no session open it opens a page, and the call is answered
  with the trace and the fresh snapshot, not with an error.
\<close>

theorem invalid_arguments_meet_the_gate_first:
  "elementSchema_parse JUndefined = Inl (InvalidArgumentsError [NotAnObject]) \<and>
   callTool (Context_run scenario_env) description snapshot_tools scenario_dialog
       \<lparr>params_name = ''browser_click'', params_arguments = JUndefined\<rparr> =
     (Inr (createErrorResponse
        (Text (''Tool \"browser_click\" does not handle the modal state.'' @ [CHR 0x0A] @
               ''alert dialog''))),
      scenario_dialog) \<and>
   callTool (Context_run scenario_env) description snapshot_tools scenario_dialog
       \<lparr>params_name = ''browser_click'', params_arguments = JUndefined\<rparr> \<noteq>
     (Inr (createErrorResponse (StringOf (InvalidArgumentsError [NotAnObject]))),
      scenario_dialog) \<and>
   callTool (Context_run scenario_env) description snapshot_tools scenario_context
       \<lparr>params_name = ''browser_click'', params_arguments = JUndefined\<rparr> =
     (Inr (createErrorResponse (StringOf (InvalidArgumentsError [NotAnObject]))),
      scenario_context) \<and>
   snapshotSchema_parse JUndefined = Inl (InvalidArgumentsError [NotAnObject]) \<and>
   snapshot_handle scenario_env scenario_context JUndefined =
     (Inr \<lparr>code = [''// <internal code to capture accessibility snapshot>''],
           action = None,
           captureSnapshot = True,
           waitForNetwork = False\<rparr>,
      scenario_context) \<and>
   snapshot_handle scenario_env (scenario_context\<lparr>currentTab := None\<rparr>) JUndefined =
     (Inr \<lparr>code = [''// <internal code to capture accessibility snapshot>''],
           action = None,
           captureSnapshot = True,
           waitForNetwork = False\<rparr>,
      scenario_context\<lparr>currentTab :=
        Some \<lparr>tab_page = \<lparr>page_generation = 0, page_nodes = []\<rparr>,
              tab_snapshot = None\<rparr>\<rparr>) \<and>
   callTool (Context_run scenario_env) description snapshot_tools scenario_context
       \<lparr>params_name = ''browser_snapshot'', params_arguments = JUndefined\<rparr> =
     (Inr \<lparr>content =
             [TextContent (Text ''// <internal code to capture accessibility snapshot>''),
              TextContent (Text (snapshot_text (capture scenario_page)))],
           isError = False\<rparr>,
      scenario_context\<lparr>currentTab := Some (Tab_captureSnapshot scenario_tab)\<rparr>)"
proof -
  have states: "modalStates scenario_dialog =
      [\<lparr>state_type = ''dialog'', description = ''alert dialog''\<rparr>]"
    by (simp add: scenario_dialog_def)
  have rejected: "callTool (Context_run scenario_env) description snapshot_tools scenario_dialog
       \<lparr>params_name = ''browser_click'', params_arguments = JUndefined\<rparr> =
     (Inr (createErrorResponse
        (Text (''Tool \"browser_click\" does not handle the modal state.'' @ [CHR 0x0A] @
               ''alert dialog''))),
      scenario_dialog)"
    by (simp add: callTool_def find_click_tool handleToolExecution_def scenario_dialog_rejects
        modal_state_rejection_def modalStatesMarkdown_def states)
  have admitted: "callTool (Context_run scenario_env) description snapshot_tools scenario_context
       \<lparr>params_name = ''browser_click'', params_arguments = JUndefined\<rparr> =
     (Inr (createErrorResponse (StringOf (InvalidArgumentsError [NotAnObject]))),
      scenario_context)"
    by (simp add: callTool_def find_click_tool handleToolExecution_def scenario_context_admits
        try_run_def Context_run_click_invalid)
  have click: "elementSchema_parse JUndefined = Inl (InvalidArgumentsError [NotAnObject]) \<and>
   callTool (Context_run scenario_env) description snapshot_tools scenario_dialog
       \<lparr>params_name = ''browser_click'', params_arguments = JUndefined\<rparr> =
     (Inr (createErrorResponse
        (Text (''Tool \"browser_click\" does not handle the modal state.'' @ [CHR 0x0A] @
               ''alert dialog''))),
      scenario_dialog) \<and>
   callTool (Context_run scenario_env) description snapshot_tools scenario_dialog
       \<lparr>params_name = ''browser_click'', params_arguments = JUndefined\<rparr> \<noteq>
     (Inr (createErrorResponse (StringOf (InvalidArgumentsError [NotAnObject]))),
      scenario_dialog) \<and>
   callTool (Context_run scenario_env) description snapshot_tools scenario_context
       \<lparr>params_name = ''browser_click'', params_arguments = JUndefined\<rparr> =
     (Inr (createErrorResponse (StringOf (InvalidArgumentsError [NotAnObject]))),
      scenario_context)"
    unfolding rejected admitted
    by (simp add: parse_undefined createErrorResponse_def)
  have invalid: "snapshotSchema_parse JUndefined = Inl (InvalidArgumentsError [NotAnObject])"
    by (simp add: snapshotSchema_parse_def)
  have planned: "snapshot_handle scenario_env scenario_context JUndefined =
     (Inr \<lparr>code = [''// <internal code to capture accessibility snapshot>''],
           action = None,
           captureSnapshot = True,
           waitForNetwork = False\<rparr>,
      scenario_context)"
    by (simp add: snapshot_handle_def ensureTab_def scenario_context_def)
  have opened: "snapshot_handle scenario_env (scenario_context\<lparr>currentTab := None\<rparr>)
       JUndefined =
     (Inr \<lparr>code = [''// <internal code to capture accessibility snapshot>''],
           action = None,
           captureSnapshot = True,
           waitForNetwork = False\<rparr>,
      scenario_context\<lparr>currentTab :=
        Some \<lparr>tab_page = \<lparr>page_generation = 0, page_nodes = []\<rparr>,
              tab_snapshot = None\<rparr>\<rparr>)"
    by (simp add: snapshot_handle_def ensureTab_def scenario_context_def scenario_env_def)
  have answered: "callTool (Context_run scenario_env) description snapshot_tools
       scenario_context
       \<lparr>params_name = ''browser_snapshot'', params_arguments = JUndefined\<rparr> =
     (Inr \<lparr>content =
             [TextContent (Text ''// <internal code to capture accessibility snapshot>''),
              TextContent (Text (snapshot_text (capture scenario_page)))],
           isError = False\<rparr>,
      scenario_context\<lparr>currentTab := Some (Tab_captureSnapshot scenario_tab)\<rparr>)"
    by code_simp
  show ?thesis
    by (intro conjI click [THEN conjunct1] click [THEN conjunct2, THEN conjunct1]
        click [THEN conjunct2, THEN conjunct2, THEN conjunct1]
        click [THEN conjunct2, THEN conjunct2, THEN conjunct2] invalid planned opened answered)
qed

text \<open>
  Claim C9. The exported list holds the eight handlers. For every tool of the list, planning
  does not depend on how the driver performs deferred operations, so the handler runs none.
  A handler returns exactly when each of its planning steps has succeeded (validation, the
  current Tab and its snapshot, the resolution of each reference, the generated locators), and
  what it returns is then the complete trace, written from the validated arguments and the
  generated locators, together with the deferred operation on the resolved locators, not yet
  run: a comment and a statement for the one operation, a comment and a statement for each
  step of \<^verbatim>\<open>browser_type\<close> in the order of the steps, and the one line of
  \<^verbatim>\<open>browser_snapshot\<close>, which defers nothing.
\<close>

theorem trace_is_planned_before_the_operation_runs:
  "map handle snapshot_tools =
     [snapshot_handle, click_handle, drag_handle, hover_handle, type_handle,
      selectOption_handle, selectRadio_handle, screenshot_handle] \<and>
   (tool \<in> set snapshot_tools \<longrightarrow>
      handle tool (env\<lparr>perform := deferred_operations\<rparr>) context params =
        handle tool env context params \<and>
      (\<forall>planned after.
         handle tool env context params = (Inr planned, after) \<longrightarrow>
           code planned \<noteq> [] \<and>
           (schema_name tool \<noteq> ''browser_snapshot'' \<longrightarrow> action planned \<noteq> None) \<and>
           (\<forall>steps. action planned = Some (Steps steps) \<longrightarrow>
              length (code planned) = 2 * length steps))) \<and>
   (snapshot_handle env context params = (Inr result, context') \<longleftrightarrow>
      (\<exists>tab. ensureTab env context = (Inr tab, context') \<and>
         result =
           \<lparr>code = [''// <internal code to capture accessibility snapshot>''],
            action = None,
            captureSnapshot = True,
            waitForNetwork = False\<rparr>)) \<and>
   (click_handle env context params = (Inr result, context') \<longleftrightarrow>
      (\<exists>validatedParams tab ref page' snapshot locator generated.
         elementSchema_parse params = Inr validatedParams \<and>
         currentTabOrDie context = Inr tab \<and>
         handleStaleRef (tab_page tab) (v_ref validatedParams) = (Inr ref, page') \<and>
         Tab_snapshotOrDie tab = Inr snapshot \<and>
         refLocator snapshot ref = Inr locator \<and>
         generateLocator env page' locator = Inr generated \<and>
         result =
           \<lparr>code =
              [''// Click '' @ v_element validatedParams,
               ''await page.'' @ generated @ ''.click();''],
            action = Some (Click locator),
            captureSnapshot = True,
            waitForNetwork = True\<rparr> \<and>
         context' = context\<lparr>currentTab := Some (tab\<lparr>tab_page := page'\<rparr>)\<rparr>)) \<and>
   (drag_handle env context params = (Inr result, context') \<longleftrightarrow>
      (\<exists>validatedParams tab snapshot startLocator endLocator generatedStart generatedEnd.
         dragSchema_parse params = Inr validatedParams \<and>
         currentTabOrDie context = Inr tab \<and>
         Tab_snapshotOrDie tab = Inr snapshot \<and>
         refLocator snapshot (v_startRef validatedParams) = Inr startLocator \<and>
         refLocator snapshot (v_endRef validatedParams) = Inr endLocator \<and>
         generateLocator env (tab_page tab) startLocator = Inr generatedStart \<and>
         generateLocator env (tab_page tab) endLocator = Inr generatedEnd \<and>
         result =
           \<lparr>code =
              [''// Drag '' @ v_startElement validatedParams @ '' to '' @
                 v_endElement validatedParams,
               ''await page.'' @ generatedStart @ ''.dragTo(page.'' @ generatedEnd @ '');''],
            action = Some (DragTo startLocator endLocator),
            captureSnapshot = True,
            waitForNetwork = True\<rparr> \<and>
         context' = context)) \<and>
   (hover_handle env context params = (Inr result, context') \<longleftrightarrow>
      (\<exists>validatedParams tab snapshot locator generated.
         elementSchema_parse params = Inr validatedParams \<and>
         currentTabOrDie context = Inr tab \<and>
         Tab_snapshotOrDie tab = Inr snapshot \<and>
         refLocator snapshot (v_ref validatedParams) = Inr locator \<and>
         generateLocator env (tab_page tab) locator = Inr generated \<and>
         result =
           \<lparr>code =
              [''// Hover over '' @ v_element validatedParams,
               ''await page.'' @ generated @ ''.hover();''],
            action = Some (Hover locator),
            captureSnapshot = True,
            waitForNetwork = True\<rparr> \<and>
         context' = context)) \<and>
   (type_handle env context params = (Inr result, context') \<longleftrightarrow>
      (\<exists>validatedParams tab snapshot locator generated.
         typeSchema_parse params = Inr validatedParams \<and>
         currentTabOrDie context = Inr tab \<and>
         Tab_snapshotOrDie tab = Inr snapshot \<and>
         refLocator snapshot (v_ref validatedParams) = Inr locator \<and>
         generateLocator env (tab_page tab) locator = Inr generated \<and>
         result =
           \<lparr>code =
              (if truthy_boolean (v_slowly validatedParams)
               then [''// Press \"'' @ v_text validatedParams @ ''\" sequentially into \"'' @
                       v_element validatedParams @ ''\"'',
                     ''await page.'' @ generated @ ''.pressSequentially('' @
                       quote env (v_text validatedParams) @ '');'']
               else [''// Fill \"'' @ v_text validatedParams @ ''\" into \"'' @
                       v_element validatedParams @ ''\"'',
                     ''await page.'' @ generated @ ''.fill('' @
                       quote env (v_text validatedParams) @ '');'']) @
              (if truthy_boolean (v_submit validatedParams)
               then [''// Submit text'',
                     ''await page.'' @ generated @ ''.press('' @ [CHR 0x27] @ ''Enter'' @
                       [CHR 0x27] @ '');'']
               else []),
            action =
              Some (Steps
                ((if truthy_boolean (v_slowly validatedParams)
                  then [PressSequentially locator (v_text validatedParams)]
                  else [Fill locator (v_text validatedParams)]) @
                 (if truthy_boolean (v_submit validatedParams)
                  then [Press locator ''Enter'']
                  else []))),
            captureSnapshot = True,
            waitForNetwork = True\<rparr> \<and>
         context' = context)) \<and>
   (selectOption_handle env context params = (Inr result, context') \<longleftrightarrow>
      (\<exists>validatedParams tab snapshot locator generated.
         selectOptionSchema_parse params = Inr validatedParams \<and>
         currentTabOrDie context = Inr tab \<and>
         Tab_snapshotOrDie tab = Inr snapshot \<and>
         refLocator snapshot (v_ref validatedParams) = Inr locator \<and>
         generateLocator env (tab_page tab) locator = Inr generated \<and>
         result =
           \<lparr>code =
              [''// Select options ['' @ join '', '' (v_values validatedParams) @ ''] in '' @
                 v_element validatedParams,
               ''await page.'' @ generated @ ''.selectOption('' @
                 formatObject env (JArray (map JString (v_values validatedParams))) @ '');''],
            action = Some (SelectOption locator (v_values validatedParams)),
            captureSnapshot = True,
            waitForNetwork = True\<rparr> \<and>
         context' = context)) \<and>
   (selectRadio_handle env context params = (Inr result, context') \<longleftrightarrow>
      (\<exists>validatedParams tab snapshot locator generated.
         selectRadioSchema_parse params = Inr validatedParams \<and>
         currentTabOrDie context = Inr tab \<and>
         Tab_snapshotOrDie tab = Inr snapshot \<and>
         refLocator snapshot (v_ref validatedParams) = Inr locator \<and>
         generateLocator env (tab_page tab) locator = Inr generated \<and>
         result =
           \<lparr>code =
              [''// Select radio button \"'' @ v_element validatedParams @
                 ''\" with value \"'' @ v_value validatedParams @ ''\"'',
               ''await page.'' @ generated @ ''.check();''],
            action = Some (Check locator),
            captureSnapshot = True,
            waitForNetwork = True\<rparr> \<and>
         context' = context)) \<and>
   (screenshot_handle env context params = (Inr result, context') \<longleftrightarrow>
      (\<exists>validatedParams tab snapshot fileType fileName options.
         screenshotSchema_parse params = Inr validatedParams \<and>
         currentTabOrDie context = Inr tab \<and>
         Tab_snapshotOrDie tab = Inr snapshot \<and>
         fileType = (if truthy_boolean (s_raw validatedParams) then ''png'' else ''jpeg'') \<and>
         fileName =
           path_join env (tmpdir env)
             (sanitizeForFilePath env (''page-'' @ toISOString env)) @ ''.'' @ fileType \<and>
         options =
           JObject [(''type'', JString fileType),
                    (''quality'', if fileType = ''png'' then JUndefined else JNumber 50),
                    (''scale'', JString ''css''),
                    (''path'', JString fileName)] \<and>
         (if truthy_string (s_ref validatedParams)
          then \<exists>locator generated.
                 refLocator snapshot
                   (case s_ref validatedParams of Some r \<Rightarrow> r | None \<Rightarrow> []) = Inr locator \<and>
                 generateLocator env (tab_page tab) locator = Inr generated \<and>
                 result =
                   \<lparr>code =
                      [''// Screenshot '' @
                         (if truthy_string (s_element validatedParams)
                          then (case s_element validatedParams of Some e \<Rightarrow> e | None \<Rightarrow> [])
                          else ''viewport'') @
                         '' and save it as '' @ fileName,
                       ''await page.'' @ generated @ ''.screenshot('' @
                         formatObject env options @ '');''],
                    action = Some (TakeScreenshot (Some locator) options fileType),
                    captureSnapshot = True,
                    waitForNetwork = False\<rparr>
          else result =
                 \<lparr>code =
                    [''// Screenshot viewport and save it as '' @ fileName,
                     ''await page.screenshot('' @ formatObject env options @ '');''],
                  action = Some (TakeScreenshot None options fileType),
                  captureSnapshot = True,
                  waitForNetwork = False\<rparr>) \<and>
         context' = context))"
proof -
  have registry: "map handle snapshot_tools =
     [snapshot_handle, click_handle, drag_handle, hover_handle, type_handle,
      selectOption_handle, selectRadio_handle, screenshot_handle]"
    by (simp add: snapshot_tools_def tool_handles)
  have every: "handle tool (env\<lparr>perform := deferred_operations\<rparr>) context params =
        handle tool env context params \<and>
      (\<forall>planned after.
         handle tool env context params = (Inr planned, after) \<longrightarrow>
           code planned \<noteq> [] \<and>
           (schema_name tool \<noteq> ''browser_snapshot'' \<longrightarrow> action planned \<noteq> None) \<and>
           (\<forall>steps. action planned = Some (Steps steps) \<longrightarrow>
              length (code planned) = 2 * length steps))"
    if "tool \<in> set snapshot_tools"
  proof -
    from that consider "tool = snapshot_tool" | "tool = click_tool" | "tool = drag_tool"
      | "tool = hover_tool" | "tool = type_tool" | "tool = selectOption_tool"
      | "tool = selectRadio_tool" | "tool = screenshot_tool"
      using snapshot_tools_cases by blast
    then show ?thesis
    proof cases
      case 1
      then show ?thesis
        using snapshot_handle_trace [of env "context" params]
        by (auto simp add: tool_handles tool_names snapshot_handle_plans)
    next
      case 2
      then show ?thesis
        using click_handle_trace [of env "context" params]
        by (fastforce simp add: tool_handles click_handle_plans)
    next
      case 3
      then show ?thesis
        using drag_handle_trace [of env "context" params]
        by (fastforce simp add: tool_handles drag_handle_plans)
    next
      case 4
      then show ?thesis
        using hover_handle_trace [of env "context" params]
        by (fastforce simp add: tool_handles hover_handle_plans)
    next
      case 5
      then show ?thesis
        using type_handle_trace [of env "context" params]
        by (fastforce simp add: tool_handles type_handle_plans)
    next
      case 6
      then show ?thesis
        using selectOption_handle_trace [of env "context" params]
        by (fastforce simp add: tool_handles selectOption_handle_plans)
    next
      case 7
      then show ?thesis
        using selectRadio_handle_trace [of env "context" params]
        by (fastforce simp add: tool_handles selectRadio_handle_plans)
    next
      case 8
      then show ?thesis
        using screenshot_handle_trace [of env "context" params]
        by (fastforce simp add: tool_handles screenshot_handle_plans)
    qed
  qed
  show ?thesis
    by (intro conjI impI registry every snapshot_handle_Inr_iff click_handle_Inr_iff
        drag_handle_Inr_iff hover_handle_Inr_iff type_handle_Inr_iff
        selectOption_handle_Inr_iff selectRadio_handle_Inr_iff screenshot_handle_Inr_iff)
qed

theorem trace_is_planned_before_the_operation_runs_witness:
  "handle snapshot_tool
       (scenario_env\<lparr>perform :=
          \<lambda>deferred page. (Inl (ActionExecutionError ''element is detached''), page)\<rparr>)
       scenario_context JUndefined =
     (Inr \<lparr>code = [''// <internal code to capture accessibility snapshot>''],
           action = None,
           captureSnapshot = True,
           waitForNetwork = False\<rparr>,
      scenario_context) \<and>
   handle click_tool
       (scenario_env\<lparr>perform :=
          \<lambda>deferred page. (Inl (ActionExecutionError ''element is detached''), page)\<rparr>)
       scenario_after_click (element_arguments ''button 12'' ''s3e12'') =
     (Inr \<lparr>code = [''// Click button 12'', ''await page.locator(s3e12).click();''],
           action = Some (Click (Locator ''s3e12'' ''button 12'')),
           captureSnapshot = True,
           waitForNetwork = True\<rparr>,
      scenario_context\<lparr>currentTab :=
        Some (scenario_tab\<lparr>tab_page := scenario_page\<lparr>page_generation := 5\<rparr>\<rparr>)\<rparr>) \<and>
   handle drag_tool
       (scenario_env\<lparr>perform :=
          \<lambda>deferred page. (Inl (ActionExecutionError ''element is detached''), page)\<rparr>)
       scenario_context (JObject [(''startElement'', JString ''button 1''), (''startRef'', JString ''s3e1''),
                 (''endElement'', JString ''button 2''), (''endRef'', JString ''s3e2'')]) =
     (Inr \<lparr>code = [''// Drag button 1 to button 2'',
                   ''await page.locator(s3e1).dragTo(page.locator(s3e2));''],
           action = Some (DragTo (Locator ''s3e1'' ''button 1'') (Locator ''s3e2'' ''button 2'')),
           captureSnapshot = True,
           waitForNetwork = True\<rparr>,
      scenario_context) \<and>
   handle hover_tool
       (scenario_env\<lparr>perform :=
          \<lambda>deferred page. (Inl (ActionExecutionError ''element is detached''), page)\<rparr>)
       scenario_context (element_arguments ''button 12'' ''s3e12'') =
     (Inr \<lparr>code = [''// Hover over button 12'', ''await page.locator(s3e12).hover();''],
           action = Some (Hover (Locator ''s3e12'' ''button 12'')),
           captureSnapshot = True,
           waitForNetwork = True\<rparr>,
      scenario_context) \<and>
   handle type_tool
       (scenario_env\<lparr>perform :=
          \<lambda>deferred page. (Inl (ActionExecutionError ''element is detached''), page)\<rparr>)
       scenario_context (JObject [(''element'', JString ''search box''), (''ref'', JString ''s3e2''),
                 (''text'', JString ''hello''), (''submit'', JBool True),
                 (''slowly'', JBool True)]) =
     (Inr \<lparr>code = [''// Press \"hello\" sequentially into \"search box\"'',
                   ''await page.locator(s3e2).pressSequentially('' @ [CHR 0x27] @ ''hello'' @
                     [CHR 0x27] @ '');'',
                   ''// Submit text'',
                   ''await page.locator(s3e2).press('' @ [CHR 0x27] @ ''Enter'' @
                     [CHR 0x27] @ '');''],
           action = Some (Steps [PressSequentially (Locator ''s3e2'' ''button 2'') ''hello'',
                                 Press (Locator ''s3e2'' ''button 2'') ''Enter'']),
           captureSnapshot = True,
           waitForNetwork = True\<rparr>,
      scenario_context) \<and>
   handle type_tool
       (scenario_env\<lparr>perform :=
          \<lambda>deferred page. (Inl (ActionExecutionError ''element is detached''), page)\<rparr>)
       scenario_context (JObject [(''element'', JString ''search box''), (''ref'', JString ''s3e2''),
                 (''text'', JString ''hello'')]) =
     (Inr \<lparr>code = [''// Fill \"hello\" into \"search box\"'',
                   ''await page.locator(s3e2).fill('' @ [CHR 0x27] @ ''hello'' @
                     [CHR 0x27] @ '');''],
           action = Some (Steps [Fill (Locator ''s3e2'' ''button 2'') ''hello'']),
           captureSnapshot = True,
           waitForNetwork = True\<rparr>,
      scenario_context) \<and>
   handle selectOption_tool
       (scenario_env\<lparr>perform :=
          \<lambda>deferred page. (Inl (ActionExecutionError ''element is detached''), page)\<rparr>)
       scenario_context (JObject [(''element'', JString ''button 5''), (''ref'', JString ''s3e5''),
                 (''values'', JArray [JString ''a'', JString ''b''])]) =
     (Inr \<lparr>code = [''// Select options [a, b] in button 5'',
                   ''await page.locator(s3e5).selectOption({});''],
           action = Some (SelectOption (Locator ''s3e5'' ''button 5'') [''a'', ''b'']),
           captureSnapshot = True,
           waitForNetwork = True\<rparr>,
      scenario_context) \<and>
   handle selectRadio_tool
       (scenario_env\<lparr>perform :=
          \<lambda>deferred page. (Inl (ActionExecutionError ''element is detached''), page)\<rparr>)
       scenario_context (JObject [(''element'', JString ''button 6''), (''ref'', JString ''s3e6''),
                 (''value'', JString ''yes'')]) =
     (Inr \<lparr>code = [''// Select radio button \"button 6\" with value \"yes\"'',
                   ''await page.locator(s3e6).check();''],
           action = Some (Check (Locator ''s3e6'' ''button 6'')),
           captureSnapshot = True,
           waitForNetwork = True\<rparr>,
      scenario_context) \<and>
   handle screenshot_tool
       (scenario_env\<lparr>perform :=
          \<lambda>deferred page. (Inl (ActionExecutionError ''element is detached''), page)\<rparr>)
       scenario_context (JObject []) =
     (Inr \<lparr>code = [''// Screenshot viewport and save it as /tmp/page-2025-01-01T00:00:00.000Z.jpeg'',
                   ''await page.screenshot({});''],
           action =
             Some (TakeScreenshot None
               (JObject [(''type'', JString ''jpeg''), (''quality'', JNumber 50),
                         (''scale'', JString ''css''),
                         (''path'', JString ''/tmp/page-2025-01-01T00:00:00.000Z.jpeg'')])
               ''jpeg''),
           captureSnapshot = True,
           waitForNetwork = False\<rparr>,
      scenario_context) \<and>
   handle screenshot_tool
       (scenario_env\<lparr>perform :=
          \<lambda>deferred page. (Inl (ActionExecutionError ''element is detached''), page)\<rparr>)
       scenario_context (JObject [(''raw'', JBool True), (''element'', JString ''button 3''),
                 (''ref'', JString ''s3e3'')]) =
     (Inr \<lparr>code = [''// Screenshot button 3 and save it as /tmp/page-2025-01-01T00:00:00.000Z.png'',
                   ''await page.locator(s3e3).screenshot({});''],
           action =
             Some (TakeScreenshot (Some (Locator ''s3e3'' ''button 3''))
               (JObject [(''type'', JString ''png''), (''quality'', JUndefined),
                         (''scale'', JString ''css''),
                         (''path'', JString ''/tmp/page-2025-01-01T00:00:00.000Z.png'')])
               ''png''),
           captureSnapshot = True,
           waitForNetwork = False\<rparr>,
      scenario_context)"
proof -
  have snapshot: "handle snapshot_tool
       (scenario_env\<lparr>perform :=
          \<lambda>deferred page. (Inl (ActionExecutionError ''element is detached''), page)\<rparr>)
       scenario_context JUndefined =
     (Inr \<lparr>code = [''// <internal code to capture accessibility snapshot>''],
           action = None,
           captureSnapshot = True,
           waitForNetwork = False\<rparr>,
      scenario_context)"
  proof -
    have registered: "snapshot_tool \<in> set (snapshot_tools :: string tool list)"
      by (simp add: snapshot_tools_def)
    have planned: "snapshot_handle scenario_env scenario_context JUndefined =
     (Inr \<lparr>code = [''// <internal code to capture accessibility snapshot>''],
           action = None,
           captureSnapshot = True,
           waitForNetwork = False\<rparr>,
      scenario_context)"
      by code_simp
    note unperformed = trace_is_planned_before_the_operation_runs [of snapshot_tool
        "\<lambda>deferred page. (Inl (ActionExecutionError ''element is detached''), page)"
        scenario_env scenario_context JUndefined,
        THEN conjunct2, THEN conjunct1, THEN mp, OF registered, THEN conjunct1]
    show ?thesis
      unfolding unperformed by (simp add: tool_handles planned)
  qed
  have click: "handle click_tool
       (scenario_env\<lparr>perform :=
          \<lambda>deferred page. (Inl (ActionExecutionError ''element is detached''), page)\<rparr>)
       scenario_after_click (element_arguments ''button 12'' ''s3e12'') =
     (Inr \<lparr>code = [''// Click button 12'', ''await page.locator(s3e12).click();''],
           action = Some (Click (Locator ''s3e12'' ''button 12'')),
           captureSnapshot = True,
           waitForNetwork = True\<rparr>,
      scenario_context\<lparr>currentTab :=
        Some (scenario_tab\<lparr>tab_page := scenario_page\<lparr>page_generation := 5\<rparr>\<rparr>)\<rparr>)"
  proof -
    have registered: "click_tool \<in> set (snapshot_tools :: string tool list)"
      by (simp add: snapshot_tools_def)
    have planned: "click_handle scenario_env scenario_after_click (element_arguments ''button 12'' ''s3e12'') =
     (Inr \<lparr>code = [''// Click button 12'', ''await page.locator(s3e12).click();''],
           action = Some (Click (Locator ''s3e12'' ''button 12'')),
           captureSnapshot = True,
           waitForNetwork = True\<rparr>,
      scenario_context\<lparr>currentTab :=
        Some (scenario_tab\<lparr>tab_page := scenario_page\<lparr>page_generation := 5\<rparr>\<rparr>)\<rparr>)"
      by code_simp
    note unperformed = trace_is_planned_before_the_operation_runs [of click_tool
        "\<lambda>deferred page. (Inl (ActionExecutionError ''element is detached''), page)"
        scenario_env scenario_after_click "element_arguments ''button 12'' ''s3e12''",
        THEN conjunct2, THEN conjunct1, THEN mp, OF registered, THEN conjunct1]
    show ?thesis
      unfolding unperformed by (simp add: tool_handles planned)
  qed
  have drag: "handle drag_tool
       (scenario_env\<lparr>perform :=
          \<lambda>deferred page. (Inl (ActionExecutionError ''element is detached''), page)\<rparr>)
       scenario_context (JObject [(''startElement'', JString ''button 1''), (''startRef'', JString ''s3e1''),
                 (''endElement'', JString ''button 2''), (''endRef'', JString ''s3e2'')]) =
     (Inr \<lparr>code = [''// Drag button 1 to button 2'',
                   ''await page.locator(s3e1).dragTo(page.locator(s3e2));''],
           action = Some (DragTo (Locator ''s3e1'' ''button 1'') (Locator ''s3e2'' ''button 2'')),
           captureSnapshot = True,
           waitForNetwork = True\<rparr>,
      scenario_context)"
  proof -
    have registered: "drag_tool \<in> set (snapshot_tools :: string tool list)"
      by (simp add: snapshot_tools_def)
    have planned: "drag_handle scenario_env scenario_context (JObject [(''startElement'', JString ''button 1''), (''startRef'', JString ''s3e1''),
                 (''endElement'', JString ''button 2''), (''endRef'', JString ''s3e2'')]) =
     (Inr \<lparr>code = [''// Drag button 1 to button 2'',
                   ''await page.locator(s3e1).dragTo(page.locator(s3e2));''],
           action = Some (DragTo (Locator ''s3e1'' ''button 1'') (Locator ''s3e2'' ''button 2'')),
           captureSnapshot = True,
           waitForNetwork = True\<rparr>,
      scenario_context)"
      by code_simp
    note unperformed = trace_is_planned_before_the_operation_runs [of drag_tool
        "\<lambda>deferred page. (Inl (ActionExecutionError ''element is detached''), page)"
        scenario_env scenario_context "JObject [(''startElement'', JString ''button 1''), (''startRef'', JString ''s3e1''),
                 (''endElement'', JString ''button 2''), (''endRef'', JString ''s3e2'')]",
        THEN conjunct2, THEN conjunct1, THEN mp, OF registered, THEN conjunct1]
    show ?thesis
      unfolding unperformed by (simp add: tool_handles planned)
  qed
  have hover: "handle hover_tool
       (scenario_env\<lparr>perform :=
          \<lambda>deferred page. (Inl (ActionExecutionError ''element is detached''), page)\<rparr>)
       scenario_context (element_arguments ''button 12'' ''s3e12'') =
     (Inr \<lparr>code = [''// Hover over button 12'', ''await page.locator(s3e12).hover();''],
           action = Some (Hover (Locator ''s3e12'' ''button 12'')),
           captureSnapshot = True,
           waitForNetwork = True\<rparr>,
      scenario_context)"
  proof -
    have registered: "hover_tool \<in> set (snapshot_tools :: string tool list)"
      by (simp add: snapshot_tools_def)
    have planned: "hover_handle scenario_env scenario_context (element_arguments ''button 12'' ''s3e12'') =
     (Inr \<lparr>code = [''// Hover over button 12'', ''await page.locator(s3e12).hover();''],
           action = Some (Hover (Locator ''s3e12'' ''button 12'')),
           captureSnapshot = True,
           waitForNetwork = True\<rparr>,
      scenario_context)"
      by code_simp
    note unperformed = trace_is_planned_before_the_operation_runs [of hover_tool
        "\<lambda>deferred page. (Inl (ActionExecutionError ''element is detached''), page)"
        scenario_env scenario_context "element_arguments ''button 12'' ''s3e12''",
        THEN conjunct2, THEN conjunct1, THEN mp, OF registered, THEN conjunct1]
    show ?thesis
      unfolding unperformed by (simp add: tool_handles planned)
  qed
  have typed: "handle type_tool
       (scenario_env\<lparr>perform :=
          \<lambda>deferred page. (Inl (ActionExecutionError ''element is detached''), page)\<rparr>)
       scenario_context (JObject [(''element'', JString ''search box''), (''ref'', JString ''s3e2''),
                 (''text'', JString ''hello''), (''submit'', JBool True),
                 (''slowly'', JBool True)]) =
     (Inr \<lparr>code = [''// Press \"hello\" sequentially into \"search box\"'',
                   ''await page.locator(s3e2).pressSequentially('' @ [CHR 0x27] @ ''hello'' @
                     [CHR 0x27] @ '');'',
                   ''// Submit text'',
                   ''await page.locator(s3e2).press('' @ [CHR 0x27] @ ''Enter'' @
                     [CHR 0x27] @ '');''],
           action = Some (Steps [PressSequentially (Locator ''s3e2'' ''button 2'') ''hello'',
                                 Press (Locator ''s3e2'' ''button 2'') ''Enter'']),
           captureSnapshot = True,
           waitForNetwork = True\<rparr>,
      scenario_context)"
  proof -
    have registered: "type_tool \<in> set (snapshot_tools :: string tool list)"
      by (simp add: snapshot_tools_def)
    have planned: "type_handle scenario_env scenario_context (JObject [(''element'', JString ''search box''), (''ref'', JString ''s3e2''),
                 (''text'', JString ''hello''), (''submit'', JBool True),
                 (''slowly'', JBool True)]) =
     (Inr \<lparr>code = [''// Press \"hello\" sequentially into \"search box\"'',
                   ''await page.locator(s3e2).pressSequentially('' @ [CHR 0x27] @ ''hello'' @
                     [CHR 0x27] @ '');'',
                   ''// Submit text'',
                   ''await page.locator(s3e2).press('' @ [CHR 0x27] @ ''Enter'' @
                     [CHR 0x27] @ '');''],
           action = Some (Steps [PressSequentially (Locator ''s3e2'' ''button 2'') ''hello'',
                                 Press (Locator ''s3e2'' ''button 2'') ''Enter'']),
           captureSnapshot = True,
           waitForNetwork = True\<rparr>,
      scenario_context)"
      by code_simp
    note unperformed = trace_is_planned_before_the_operation_runs [of type_tool
        "\<lambda>deferred page. (Inl (ActionExecutionError ''element is detached''), page)"
        scenario_env scenario_context "JObject [(''element'', JString ''search box''), (''ref'', JString ''s3e2''),
                 (''text'', JString ''hello''), (''submit'', JBool True),
                 (''slowly'', JBool True)]",
        THEN conjunct2, THEN conjunct1, THEN mp, OF registered, THEN conjunct1]
    show ?thesis
      unfolding unperformed by (simp add: tool_handles planned)
  qed
  have filled: "handle type_tool
       (scenario_env\<lparr>perform :=
          \<lambda>deferred page. (Inl (ActionExecutionError ''element is detached''), page)\<rparr>)
       scenario_context (JObject [(''element'', JString ''search box''), (''ref'', JString ''s3e2''),
                 (''text'', JString ''hello'')]) =
     (Inr \<lparr>code = [''// Fill \"hello\" into \"search box\"'',
                   ''await page.locator(s3e2).fill('' @ [CHR 0x27] @ ''hello'' @
                     [CHR 0x27] @ '');''],
           action = Some (Steps [Fill (Locator ''s3e2'' ''button 2'') ''hello'']),
           captureSnapshot = True,
           waitForNetwork = True\<rparr>,
      scenario_context)"
  proof -
    have registered: "type_tool \<in> set (snapshot_tools :: string tool list)"
      by (simp add: snapshot_tools_def)
    have planned: "type_handle scenario_env scenario_context (JObject [(''element'', JString ''search box''), (''ref'', JString ''s3e2''),
                 (''text'', JString ''hello'')]) =
     (Inr \<lparr>code = [''// Fill \"hello\" into \"search box\"'',
                   ''await page.locator(s3e2).fill('' @ [CHR 0x27] @ ''hello'' @
                     [CHR 0x27] @ '');''],
           action = Some (Steps [Fill (Locator ''s3e2'' ''button 2'') ''hello'']),
           captureSnapshot = True,
           waitForNetwork = True\<rparr>,
      scenario_context)"
      by code_simp
    note unperformed = trace_is_planned_before_the_operation_runs [of type_tool
        "\<lambda>deferred page. (Inl (ActionExecutionError ''element is detached''), page)"
        scenario_env scenario_context "JObject [(''element'', JString ''search box''), (''ref'', JString ''s3e2''),
                 (''text'', JString ''hello'')]",
        THEN conjunct2, THEN conjunct1, THEN mp, OF registered, THEN conjunct1]
    show ?thesis
      unfolding unperformed by (simp add: tool_handles planned)
  qed
  have selectOption: "handle selectOption_tool
       (scenario_env\<lparr>perform :=
          \<lambda>deferred page. (Inl (ActionExecutionError ''element is detached''), page)\<rparr>)
       scenario_context (JObject [(''element'', JString ''button 5''), (''ref'', JString ''s3e5''),
                 (''values'', JArray [JString ''a'', JString ''b''])]) =
     (Inr \<lparr>code = [''// Select options [a, b] in button 5'',
                   ''await page.locator(s3e5).selectOption({});''],
           action = Some (SelectOption (Locator ''s3e5'' ''button 5'') [''a'', ''b'']),
           captureSnapshot = True,
           waitForNetwork = True\<rparr>,
      scenario_context)"
  proof -
    have registered: "selectOption_tool \<in> set (snapshot_tools :: string tool list)"
      by (simp add: snapshot_tools_def)
    have planned: "selectOption_handle scenario_env scenario_context (JObject [(''element'', JString ''button 5''), (''ref'', JString ''s3e5''),
                 (''values'', JArray [JString ''a'', JString ''b''])]) =
     (Inr \<lparr>code = [''// Select options [a, b] in button 5'',
                   ''await page.locator(s3e5).selectOption({});''],
           action = Some (SelectOption (Locator ''s3e5'' ''button 5'') [''a'', ''b'']),
           captureSnapshot = True,
           waitForNetwork = True\<rparr>,
      scenario_context)"
      by code_simp
    note unperformed = trace_is_planned_before_the_operation_runs [of selectOption_tool
        "\<lambda>deferred page. (Inl (ActionExecutionError ''element is detached''), page)"
        scenario_env scenario_context "JObject [(''element'', JString ''button 5''), (''ref'', JString ''s3e5''),
                 (''values'', JArray [JString ''a'', JString ''b''])]",
        THEN conjunct2, THEN conjunct1, THEN mp, OF registered, THEN conjunct1]
    show ?thesis
      unfolding unperformed by (simp add: tool_handles planned)
  qed
  have selectRadio: "handle selectRadio_tool
       (scenario_env\<lparr>perform :=
          \<lambda>deferred page. (Inl (ActionExecutionError ''element is detached''), page)\<rparr>)
       scenario_context (JObject [(''element'', JString ''button 6''), (''ref'', JString ''s3e6''),
                 (''value'', JString ''yes'')]) =
     (Inr \<lparr>code = [''// Select radio button \"button 6\" with value \"yes\"'',
                   ''await page.locator(s3e6).check();''],
           action = Some (Check (Locator ''s3e6'' ''button 6'')),
           captureSnapshot = True,
           waitForNetwork = True\<rparr>,
      scenario_context)"
  proof -
    have registered: "selectRadio_tool \<in> set (snapshot_tools :: string tool list)"
      by (simp add: snapshot_tools_def)
    have planned: "selectRadio_handle scenario_env scenario_context (JObject [(''element'', JString ''button 6''), (''ref'', JString ''s3e6''),
                 (''value'', JString ''yes'')]) =
     (Inr \<lparr>code = [''// Select radio button \"button 6\" with value \"yes\"'',
                   ''await page.locator(s3e6).check();''],
           action = Some (Check (Locator ''s3e6'' ''button 6'')),
           captureSnapshot = True,
           waitForNetwork = True\<rparr>,
      scenario_context)"
      by code_simp
    note unperformed = trace_is_planned_before_the_operation_runs [of selectRadio_tool
        "\<lambda>deferred page. (Inl (ActionExecutionError ''element is detached''), page)"
        scenario_env scenario_context "JObject [(''element'', JString ''button 6''), (''ref'', JString ''s3e6''),
                 (''value'', JString ''yes'')]",
        THEN conjunct2, THEN conjunct1, THEN mp, OF registered, THEN conjunct1]
    show ?thesis
      unfolding unperformed by (simp add: tool_handles planned)
  qed
  have viewport: "handle screenshot_tool
       (scenario_env\<lparr>perform :=
          \<lambda>deferred page. (Inl (ActionExecutionError ''element is detached''), page)\<rparr>)
       scenario_context (JObject []) =
     (Inr \<lparr>code = [''// Screenshot viewport and save it as /tmp/page-2025-01-01T00:00:00.000Z.jpeg'',
                   ''await page.screenshot({});''],
           action =
             Some (TakeScreenshot None
               (JObject [(''type'', JString ''jpeg''), (''quality'', JNumber 50),
                         (''scale'', JString ''css''),
                         (''path'', JString ''/tmp/page-2025-01-01T00:00:00.000Z.jpeg'')])
               ''jpeg''),
           captureSnapshot = True,
           waitForNetwork = False\<rparr>,
      scenario_context)"
  proof -
    have registered: "screenshot_tool \<in> set (snapshot_tools :: string tool list)"
      by (simp add: snapshot_tools_def)
    have planned: "screenshot_handle scenario_env scenario_context (JObject []) =
     (Inr \<lparr>code = [''// Screenshot viewport and save it as /tmp/page-2025-01-01T00:00:00.000Z.jpeg'',
                   ''await page.screenshot({});''],
           action =
             Some (TakeScreenshot None
               (JObject [(''type'', JString ''jpeg''), (''quality'', JNumber 50),
                         (''scale'', JString ''css''),
                         (''path'', JString ''/tmp/page-2025-01-01T00:00:00.000Z.jpeg'')])
               ''jpeg''),
           captureSnapshot = True,
           waitForNetwork = False\<rparr>,
      scenario_context)"
      by code_simp
    note unperformed = trace_is_planned_before_the_operation_runs [of screenshot_tool
        "\<lambda>deferred page. (Inl (ActionExecutionError ''element is detached''), page)"
        scenario_env scenario_context "JObject []",
        THEN conjunct2, THEN conjunct1, THEN mp, OF registered, THEN conjunct1]
    show ?thesis
      unfolding unperformed by (simp add: tool_handles planned)
  qed
  have element: "handle screenshot_tool
       (scenario_env\<lparr>perform :=
          \<lambda>deferred page. (Inl (ActionExecutionError ''element is detached''), page)\<rparr>)
       scenario_context (JObject [(''raw'', JBool True), (''element'', JString ''button 3''),
                 (''ref'', JString ''s3e3'')]) =
     (Inr \<lparr>code = [''// Screenshot button 3 and save it as /tmp/page-2025-01-01T00:00:00.000Z.png'',
                   ''await page.locator(s3e3).screenshot({});''],
           action =
             Some (TakeScreenshot (Some (Locator ''s3e3'' ''button 3''))
               (JObject [(''type'', JString ''png''), (''quality'', JUndefined),
                         (''scale'', JString ''css''),
                         (''path'', JString ''/tmp/page-2025-01-01T00:00:00.000Z.png'')])
               ''png''),
           captureSnapshot = True,
           waitForNetwork = False\<rparr>,
      scenario_context)"
  proof -
    have registered: "screenshot_tool \<in> set (snapshot_tools :: string tool list)"
      by (simp add: snapshot_tools_def)
    have planned: "screenshot_handle scenario_env scenario_context (JObject [(''raw'', JBool True), (''element'', JString ''button 3''),
                 (''ref'', JString ''s3e3'')]) =
     (Inr \<lparr>code = [''// Screenshot button 3 and save it as /tmp/page-2025-01-01T00:00:00.000Z.png'',
                   ''await page.locator(s3e3).screenshot({});''],
           action =
             Some (TakeScreenshot (Some (Locator ''s3e3'' ''button 3''))
               (JObject [(''type'', JString ''png''), (''quality'', JUndefined),
                         (''scale'', JString ''css''),
                         (''path'', JString ''/tmp/page-2025-01-01T00:00:00.000Z.png'')])
               ''png''),
           captureSnapshot = True,
           waitForNetwork = False\<rparr>,
      scenario_context)"
      by code_simp
    note unperformed = trace_is_planned_before_the_operation_runs [of screenshot_tool
        "\<lambda>deferred page. (Inl (ActionExecutionError ''element is detached''), page)"
        scenario_env scenario_context "JObject [(''raw'', JBool True), (''element'', JString ''button 3''),
                 (''ref'', JString ''s3e3'')]",
        THEN conjunct2, THEN conjunct1, THEN mp, OF registered, THEN conjunct1]
    show ?thesis
      unfolding unperformed by (simp add: tool_handles planned)
  qed
  show ?thesis
    by (intro conjI snapshot click drag hover typed filled selectOption selectRadio viewport
        element)
qed

end
